theory Spec2Isabelle
  imports Complex_Main "HOL-Library.AList" "HOL-Library.Sublist"
begin

section \<open>Python values\<close>

text \<open>
  The program passes releases, API responses and its configuration around as
  dictionaries of arbitrary values (\<^verbatim>\<open>Dict[str, Any]\<close>) and reads them with
  \<^verbatim>\<open>.get\<close>. The model keeps that: a value is one of the JSON-shaped Python values,
  a dictionary is an association list with string keys, read with \<open>map_of\<close> and
  written with \<open>AList.update\<close> (a new key goes to the end, an old key keeps its
  place, as in a Python dict).

  A float is NaN, an infinity or a finite number. Finite numbers are kept as
  exact rationals: rounding to binary64 is not modelled.
\<close>

datatype pyfloat = Finite rat | PosInf | NegInf | NaN

datatype pyval =
    PNone
  | PBool bool
  | PInt int
  | PFloat pyfloat
  | PStr string
  | PList "pyval list"
  | PDict "(string \<times> pyval) list"

type_synonym pydict = "(string \<times> pyval) list"

text \<open>\<^verbatim>\<open>bool(v)\<close>: the truth value Python gives a value in \<^verbatim>\<open>if v\<close>.\<close>

fun truthy :: "pyval \<Rightarrow> bool" where
  "truthy PNone = False"
| "truthy (PBool b) = b"
| "truthy (PInt i) = (i \<noteq> 0)"
| "truthy (PFloat f) = (f \<noteq> Finite 0)"
| "truthy (PStr s) = (s \<noteq> [])"
| "truthy (PList xs) = (xs \<noteq> [])"
| "truthy (PDict d) = (d \<noteq> [])"

text \<open>\<^verbatim>\<open>d.get(k)\<close> (None when the key is absent) and \<^verbatim>\<open>d.get(k, default)\<close>.\<close>

definition py_get :: "pydict \<Rightarrow> string \<Rightarrow> pyval" where
  "py_get d k = (case map_of d k of Some v \<Rightarrow> v | None \<Rightarrow> PNone)"

definition py_get_or :: "pydict \<Rightarrow> string \<Rightarrow> pyval \<Rightarrow> pyval" where
  "py_get_or d k dflt = (case map_of d k of Some v \<Rightarrow> v | None \<Rightarrow> dflt)"

subsection \<open>\<^verbatim>\<open>str()\<close>\<close>

fun str_nat :: "nat \<Rightarrow> string" where
  "str_nat n =
     (if n < 10 then [''0123456789'' ! n]
      else str_nat (n div 10) @ [''0123456789'' ! (n mod 10)])"

declare str_nat.simps [simp del]

definition str_int :: "int \<Rightarrow> string" where
  "str_int i = (if i < 0 then CHR ''-'' # str_nat (nat (- i)) else str_nat (nat i))"

text \<open>
  \<^verbatim>\<open>repr\<close> of a string: single quotes unless the string holds a single quote and
  no double quote; backslash, the quote in use, tab, newline and carriage
  return are escaped, every other non-printable character is written
  \<^verbatim>\<open>\xhh\<close>. A \<open>char\<close> stands for the code point of the same number.
\<close>

definition is_printable :: "char \<Rightarrow> bool" where
  "is_printable c =
     (let n = (of_char c :: nat) in (32 \<le> n \<and> n < 127) \<or> (161 \<le> n \<and> n \<noteq> 173))"

definition hex2 :: "char \<Rightarrow> string" where
  "hex2 c =
     (let n = (of_char c :: nat)
      in [''0123456789abcdef'' ! (n div 16), ''0123456789abcdef'' ! (n mod 16)])"

definition repr_char :: "char \<Rightarrow> char \<Rightarrow> string" where
  "repr_char q c =
     (if c = CHR 0x5C \<or> c = q then [CHR 0x5C, c]
      else if c = CHR 0x09 then [CHR 0x5C, CHR ''t'']
      else if c = CHR 0x0A then [CHR 0x5C, CHR ''n'']
      else if c = CHR 0x0D then [CHR 0x5C, CHR ''r'']
      else if is_printable c then [c]
      else [CHR 0x5C, CHR ''x''] @ hex2 c)"

definition repr_str :: "string \<Rightarrow> string" where
  "repr_str s =
     (let q = (if CHR 0x27 \<in> set s \<and> CHR 0x22 \<notin> set s then CHR 0x22 else CHR 0x27)
      in q # concat (map (repr_char q) s) @ [q])"

fun join_comma :: "string list \<Rightarrow> string" where
  "join_comma [] = []"
| "join_comma [x] = x"
| "join_comma (x # y # ys) = x @ '', '' @ join_comma (y # ys)"

text \<open>
  \<^verbatim>\<open>repr\<close> of a float: \<^verbatim>\<open>nan\<close>, \<^verbatim>\<open>inf\<close>, \<^verbatim>\<open>-inf\<close>, and \<^verbatim>\<open>7.0\<close> for an integral
  value. Python prints any other finite float with the shortest digits that read
  back as the same binary64 number; that search is outside this model, which
  prints the fraction instead. The program only ever converts identifiers
  (JSON integers and strings), and no statement below depends on these digits.
\<close>

definition float_str :: "pyfloat \<Rightarrow> string" where
  "float_str f =
     (case f of
        NaN \<Rightarrow> ''nan''
      | PosInf \<Rightarrow> ''inf''
      | NegInf \<Rightarrow> ''-inf''
      | Finite q \<Rightarrow>
          (let (n, d) = quotient_of q
           in if d = 1 then str_int n @ ''.0'' else str_int n @ ''/'' @ str_int d))"

fun py_repr :: "pyval \<Rightarrow> string" where
  "py_repr PNone = ''None''"
| "py_repr (PBool b) = (if b then ''True'' else ''False'')"
| "py_repr (PInt i) = str_int i"
| "py_repr (PFloat f) = float_str f"
| "py_repr (PStr s) = repr_str s"
| "py_repr (PList xs) = ''['' @ join_comma (map py_repr xs) @ '']''"
| "py_repr (PDict d) =
     ''{'' @ join_comma (map (\<lambda>kv. repr_str (fst kv) @ '': '' @ py_repr (snd kv)) d) @ ''}''"

definition py_str :: "pyval \<Rightarrow> string" where
  "py_str v = (case v of PStr s \<Rightarrow> s | _ \<Rightarrow> py_repr v)"

section \<open>The world outside: requests, responses and the hist of calls\<close>

text \<open>
  Every call the program makes to a collaborator is appended to a log, and the
  collaborator's answer is a function of the log so far and of the call. A
  collaborator may answer the same call differently at different points of a run,
  and any sequence of answers is such a function, since the log grows with
  every call.

  An HTTP call of \<^verbatim>\<open>requests\<close> either yields a response (the status code, the
  body parsed by \<^verbatim>\<open>response.json()\<close>, \<open>None\<close> when that raises, and the raw body)
  or raises: a \<^verbatim>\<open>requests.exceptions.RequestException\<close> or some other
  \<^verbatim>\<open>Exception\<close>, each with its message. Timeouts are not part of a request here:
  a timeout is one of the exceptions.
\<close>

datatype http_request =
    GET string "(string \<times> string) list" "(string \<times> pyval) list"
  | DELETE string "(string \<times> string) list" pyval
  | POST string "(string \<times> string) list" pyval

datatype http_outcome =
    Response nat "pyval option" string
  | RequestException string
  | OtherException string

record release_flags =
  overseerr :: bool
  riven :: bool

datatype event =
    RequestMedia pydict
  | Http http_request
  | SendReleaseNotifications "pydict list" "(string \<times> release_flags) list"

type_synonym network = "event list \<Rightarrow> http_request \<Rightarrow> http_outcome"

section \<open>riven\_requester.py\<close>

text \<open>
  \<^verbatim>\<open>RivenRequester\<close> holds the API URL and key it read from the configuration; both are
  strings. A method takes the network and the log, and returns its value with the
  log it leaves. The result dictionary \<^verbatim>\<open>{"success": .., "failed": .., "results": [..]}\<close>
  always has these three keys and is a record here; each entry of \<^verbatim>\<open>results\<close> is a
  dictionary. The leading underscore of the private methods is dropped.
\<close>

record riven_requester =
  api_url :: string
  api_key :: string

record sink_result =
  success :: nat
  failed :: nat
  results :: "pyval list"

definition is_enabled :: "riven_requester \<Rightarrow> bool" where
  "is_enabled rq = (api_key rq \<noteq> [] \<and> api_url rq \<noteq> [])"

definition unknown_items_request :: "riven_requester \<Rightarrow> string \<Rightarrow> http_request" where
  "unknown_items_request rq media_type =
     GET (api_url rq @ ''/api/v1/items'')
         [(''x-api-key'', api_key rq)]
         [(''limit'', PInt 500), (''page'', PInt 1), (''type'', PStr media_type),
          (''states'', PStr ''Unknown''), (''extended'', PStr ''false''),
          (''count_only'', PStr ''false'')]"

text \<open>
  The dictionary comprehension of \<^verbatim>\<open>_get_unknown_items\<close>:
  \<^verbatim>\<open>{str(item.get("tmdb_id")): str(item.get("id")) for item in items if item.get("tmdb_id")}\<close>.
  An item that is not a dictionary has no \<^verbatim>\<open>.get\<close>: the comprehension raises, which
  is \<open>None\<close> here.
\<close>

fun unknown_map :: "pyval list \<Rightarrow> (string \<times> string) list \<Rightarrow> (string \<times> string) list option" where
  "unknown_map [] acc = Some acc"
| "unknown_map (PDict item # items) acc =
     unknown_map items
       (if truthy (py_get item ''tmdb_id'')
        then AList.update (py_str (py_get item ''tmdb_id'')) (py_str (py_get item ''id'')) acc
        else acc)"
| "unknown_map (_ # items) acc = None"

text \<open>
  \<^verbatim>\<open>_get_unknown_items\<close>. Everything that can go wrong ends in the empty dictionary:
  a status other than 200, a body that is not JSON, a body that is not a
  dictionary, \<^verbatim>\<open>items\<close> that cannot be iterated or holds something else than
  dictionaries (iterating a non-empty string or dictionary yields strings, which
  have no \<^verbatim>\<open>.get\<close>; an empty one yields nothing), and any exception of the call.
\<close>

definition get_unknown_items ::
  "network \<Rightarrow> event list \<Rightarrow> riven_requester \<Rightarrow> string \<Rightarrow> (string \<times> string) list \<times> event list" where
  "get_unknown_items net hist rq media_type =
     (let req = unknown_items_request rq media_type
      in ((case net hist req of
             Response status body txt \<Rightarrow>
               (if status = 200 then
                  (case body of
                     Some (PDict data) \<Rightarrow>
                       (case py_get_or data ''items'' (PList []) of
                          PList items \<Rightarrow>
                            (case unknown_map items [] of Some m \<Rightarrow> m | None \<Rightarrow> [])
                        | _ \<Rightarrow> [])
                   | _ \<Rightarrow> [])
                else [])
           | RequestException e \<Rightarrow> []
           | OtherException e \<Rightarrow> []),
          hist @ [Http req]))"

definition remove_request :: "riven_requester \<Rightarrow> string list \<Rightarrow> http_request" where
  "remove_request rq item_ids =
     DELETE (api_url rq @ ''/api/v1/items/remove'')
            [(''x-api-key'', api_key rq), (''Content-Type'', ''application/json'')]
            (PDict [(''ids'', PList (map PStr item_ids))])"

definition remove_items ::
  "network \<Rightarrow> event list \<Rightarrow> riven_requester \<Rightarrow> string list \<Rightarrow> bool \<times> event list" where
  "remove_items net hist rq item_ids =
     (if item_ids = [] then (True, hist)
      else
        (let req = remove_request rq item_ids
         in ((case net hist req of
                Response status body txt \<Rightarrow> status = 200
              | RequestException e \<Rightarrow> False
              | OtherException e \<Rightarrow> False),
             hist @ [Http req])))"

definition add_request :: "riven_requester \<Rightarrow> string \<Rightarrow> string list \<Rightarrow> http_request" where
  "add_request rq media_type tmdb_ids =
     POST (api_url rq @ ''/api/v1/items/add'')
          [(''x-api-key'', api_key rq), (''Content-Type'', ''application/json''),
           (''Accept'', ''application/json'')]
          (PDict [(''media_type'', PStr media_type), (''tmdb_ids'', PList (map PStr tmdb_ids))])"

text \<open>
  \<^verbatim>\<open>_add_items\<close>. The two helpers catch every exception themselves, so inside the
  \<^verbatim>\<open>try\<close> only the POST can raise; both handlers build the same result from the
  exception's message.
\<close>

definition add_items ::
  "network \<Rightarrow> event list \<Rightarrow> riven_requester \<Rightarrow> string \<Rightarrow> pydict list \<Rightarrow> sink_result \<times> event list" where
  "add_items net hist rq media_type releases =
     (let tmdb_ids = map (\<lambda>r. py_str (py_get r ''tmdb_id''))
                         (filter (\<lambda>r. truthy (py_get r ''tmdb_id'')) releases)
      in if tmdb_ids = [] then
           (\<lparr>success = 0, failed = length releases, results = []\<rparr>, hist)
         else
           (let (unknown_items, hist1) = get_unknown_items net hist rq media_type;
                items_to_remove = List.map_filter (map_of unknown_items) tmdb_ids;
                hist2 = (if items_to_remove \<noteq> []
                        then snd (remove_items net hist1 rq items_to_remove) else hist1);
                req = add_request rq media_type tmdb_ids
            in ((case net hist2 req of
                   Response status body txt \<Rightarrow>
                     (if status = 200 then
                        \<lparr>success = length tmdb_ids, failed = 0,
                         results = [PDict [(''status'', PStr ''success''),
                                           (''ids'', PList (map PStr tmdb_ids))]]\<rparr>
                      else if status = 404 then
                        \<lparr>success = 0, failed = length tmdb_ids,
                         results = [PDict [(''status'', PStr ''error''), (''code'', PInt 404),
                                           (''message'', PStr ''Not found'')]]\<rparr>
                      else if status = 422 then
                        \<lparr>success = 0, failed = length tmdb_ids,
                         results = [PDict [(''status'', PStr ''error''), (''code'', PInt 422),
                                           (''message'', PStr ''Validation error'')]]\<rparr>
                      else
                        \<lparr>success = 0, failed = length tmdb_ids,
                         results = [PDict [(''status'', PStr ''error''),
                                           (''code'', PInt (int status))]]\<rparr>)
                 | RequestException e \<Rightarrow>
                     \<lparr>success = 0, failed = length releases,
                      results = [PDict [(''status'', PStr ''error''), (''message'', PStr e)]]\<rparr>
                 | OtherException e \<Rightarrow>
                     \<lparr>success = 0, failed = length releases,
                      results = [PDict [(''status'', PStr ''error''), (''message'', PStr e)]]\<rparr>),
                hist2 @ [Http req])))"

definition add_media ::
  "network \<Rightarrow> event list \<Rightarrow> riven_requester \<Rightarrow> pydict list \<Rightarrow> sink_result \<times> event list" where
  "add_media net hist rq releases =
     (if \<not> is_enabled rq then (\<lparr>success = 0, failed = 0, results = []\<rparr>, hist)
      else
        (let movies = filter (\<lambda>r. py_get r ''type'' = PStr ''movie'') releases
         in if movies \<noteq> [] then add_items net hist rq ''movie'' movies
            else (\<lparr>success = 0, failed = 0, results = []\<rparr>, hist)))"

section \<open>dvd\_release\_checker.py: the release record\<close>

text \<open>
  The dictionary \<^verbatim>\<open>_lookup_on_tmdb\<close> returns for the first search result
  \<^verbatim>\<open>movie\<close>, given the genre names and the certification it read from the details
  response. \<^verbatim>\<open>movie['id']\<close> is a plain subscript: without that key the lookup
  raises \<^verbatim>\<open>KeyError\<close>, which is \<open>None\<close> here.
\<close>

definition lookup_on_tmdb_record :: "string \<Rightarrow> pydict \<Rightarrow> pyval list \<Rightarrow> pyval \<Rightarrow> pydict option" where
  "lookup_on_tmdb_record title movie genre_names certification =
     (case map_of movie ''id'' of
        None \<Rightarrow> None
      | Some movie_id \<Rightarrow>
          Some [(''id'', movie_id),
                (''title'', py_get_or movie ''title'' (PStr title)),
                (''overview'', py_get_or movie ''overview'' (PStr [])),
                (''vote_average'', py_get_or movie ''vote_average'' (PInt 0)),
                (''poster_path'', py_get movie ''poster_path''),
                (''release_date'', py_get_or movie ''release_date'' (PStr [])),
                (''original_language'', py_get_or movie ''original_language'' (PStr [])),
                (''adult'', py_get_or movie ''adult'' (PBool False)),
                (''genre_names'', PList genre_names),
                (''certification'', certification),
                (''media_type'', PStr ''movie'')])"

section \<open>main.py: \<^verbatim>\<open>run_check\<close>\<close>

text \<open>
  A call of a collaborator returns a value or raises an exception (an instance of
  \<^verbatim>\<open>Exception\<close>, which is what \<^verbatim>\<open>except Exception\<close> catches), given by its message.
\<close>

datatype 'a outcome = Returns 'a | Raises string

text \<open>
  The arguments of \<^verbatim>\<open>run_check\<close>, each by what the function uses of it:
  \<^item> \<^verbatim>\<open>release_checker\<close>: the outcome of its \<^verbatim>\<open>get_today_releases()\<close>;
  \<^item> \<^verbatim>\<open>overseerr_requester\<close>: \<open>None\<close>, or its \<^verbatim>\<open>request_media\<close>, whose answer
    depends on the calls made so far and on the release;
  \<^item> \<^verbatim>\<open>riven_requester\<close>: \<open>None\<close>, or the \<^verbatim>\<open>RivenRequester\<close>;
  \<^item> \<^verbatim>\<open>filter_engine\<close>: its \<^verbatim>\<open>apply_filters\<close>;
  \<^item> \<^verbatim>\<open>discord_notifier\<close>: what \<^verbatim>\<open>is_enabled()\<close> returns, and its
    \<^verbatim>\<open>send_release_notifications\<close>.
  The sources of the Overseerr requester, the filter engine and the notifier are
  not part of the repository's files at hand, so they stay parameters.
\<close>

type_synonym request_media = "event list \<Rightarrow> pydict \<Rightarrow> pyval outcome"

record discord_notifier =
  notifier_enabled :: bool
  send_release_notifications ::
    "event list \<Rightarrow> pydict list \<Rightarrow> (string \<times> release_flags) list \<Rightarrow> unit outcome"

text \<open>
  The local variables of \<^verbatim>\<open>run_check\<close>, with the log of the calls made.
\<close>

record run_state =
  calls :: "event list"
  release_results :: "(string \<times> release_flags) list"
  overseerr_successful :: nat
  overseerr_failed :: nat
  riven_success_count :: nat
  riven_failed_count :: nat

text \<open>
  \<^verbatim>\<open>run_check\<close> ends by returning, or by an exception of a collaborator that it does
  not catch; either way with its variables as they were then.
\<close>

datatype run_result = Completed run_state | Propagated string run_state

fun final_state :: "run_result \<Rightarrow> run_state" where
  "final_state (Completed s) = s"
| "final_state (Propagated e s) = s"

text \<open>\<^verbatim>\<open>tmdb_id = str(release.get("tmdb_id", ""))\<close>\<close>

definition release_key :: "pydict \<Rightarrow> string" where
  "release_key release = py_str (py_get_or release ''tmdb_id'' (PStr []))"

text \<open>
  \<^verbatim>\<open>if tmdb_id not in release_results: release_results[tmdb_id] = {"overseerr": False, "riven": False}\<close>
\<close>

definition ensure_entry :: "string \<Rightarrow> (string \<times> release_flags) list \<Rightarrow> (string \<times> release_flags) list" where
  "ensure_entry tmdb_id table =
     (if map_of table tmdb_id = None
      then AList.update tmdb_id \<lparr>overseerr = False, riven = False\<rparr> table
      else table)"

text \<open>The loop over the filtered releases that requests each one through Overseerr.\<close>

fun overseerr_loop :: "request_media \<Rightarrow> pydict list \<Rightarrow> run_state \<Rightarrow> run_state" where
  "overseerr_loop request [] s = s"
| "overseerr_loop request (release # rest) s =
     (let tmdb_id = release_key release;
          s1 = s\<lparr>release_results := ensure_entry tmdb_id (release_results s),
                 calls := calls s @ [RequestMedia release]\<rparr>
      in overseerr_loop request rest
           (case request (calls s) release of
              Returns result \<Rightarrow>
                (if truthy result then
                   s1\<lparr>overseerr_successful := overseerr_successful s1 + 1,
                      release_results :=
                        AList.map_entry tmdb_id (\<lambda>f. f\<lparr>overseerr := True\<rparr>) (release_results s1)\<rparr>
                 else s1\<lparr>overseerr_failed := overseerr_failed s1 + 1\<rparr>)
            | Raises e \<Rightarrow> s1\<lparr>overseerr_failed := overseerr_failed s1 + 1\<rparr>))"

text \<open>The loop that marks every filtered release after a Riven batch with a success count above zero.\<close>

fun mark_riven :: "pydict list \<Rightarrow> (string \<times> release_flags) list \<Rightarrow> (string \<times> release_flags) list" where
  "mark_riven [] table = table"
| "mark_riven (release # rest) table =
     (let tmdb_id = release_key release
      in mark_riven rest
           (AList.map_entry tmdb_id (\<lambda>f. f\<lparr>riven := True\<rparr>) (ensure_entry tmdb_id table)))"

definition overseerr_step :: "request_media option \<Rightarrow> pydict list \<Rightarrow> run_state \<Rightarrow> run_state" where
  "overseerr_step overseerr_requester filtered_releases s =
     (case overseerr_requester of
        Some request \<Rightarrow>
          (if filtered_releases \<noteq> [] then overseerr_loop request filtered_releases s else s)
      | None \<Rightarrow> s)"

definition riven_step :: "network \<Rightarrow> riven_requester option \<Rightarrow> pydict list \<Rightarrow> run_state \<Rightarrow> run_state" where
  "riven_step net riven_requester filtered_releases s =
     (case riven_requester of
        Some rq \<Rightarrow>
          (if filtered_releases \<noteq> [] then
             (let (riven_results, hist) = add_media net (calls s) rq filtered_releases;
                  s1 = s\<lparr>calls := hist,
                         riven_success_count := success riven_results,
                         riven_failed_count := failed riven_results\<rparr>
              in if riven_success_count s1 > 0
                 then s1\<lparr>release_results := mark_riven filtered_releases (release_results s1)\<rparr>
                 else s1)
           else s)
      | None \<Rightarrow> s)"

definition notify_step :: "discord_notifier \<Rightarrow> pydict list \<Rightarrow> run_state \<Rightarrow> run_result" where
  "notify_step discord_notifier filtered_releases s =
     (if notifier_enabled discord_notifier \<and> release_results s \<noteq> [] then
        (let s1 = s\<lparr>calls := calls s @
                       [SendReleaseNotifications filtered_releases (release_results s)]\<rparr>
         in case send_release_notifications discord_notifier (calls s) filtered_releases
                   (release_results s) of
              Returns u \<Rightarrow> Completed s1
            | Raises e \<Rightarrow> Propagated e s1)
      else Completed s)"

text \<open>
  \<^verbatim>\<open>run_check\<close>: the releases, the filter, the Overseerr step, the Riven step, the
  notification. Logging has no part in the model. The three steps are the three
  \<^verbatim>\<open>if\<close> blocks of the function, in its order.
\<close>

definition run_check ::
  "network \<Rightarrow> pydict list outcome \<Rightarrow> request_media option \<Rightarrow> riven_requester option \<Rightarrow>
   (pydict list \<Rightarrow> pydict list outcome) \<Rightarrow> discord_notifier \<Rightarrow> run_result" where
  "run_check net release_checker overseerr_requester riven_requester filter_engine discord_notifier =
     (let s0 = \<lparr>calls = [], release_results = [], overseerr_successful = 0, overseerr_failed = 0,
                riven_success_count = 0, riven_failed_count = 0\<rparr>
      in case release_checker of
           Raises e \<Rightarrow> Propagated e s0
         | Returns releases \<Rightarrow>
             (case filter_engine releases of
                Raises e \<Rightarrow> Propagated e s0
              | Returns filtered_releases \<Rightarrow>
                  notify_step discord_notifier filtered_releases
                    (riven_step net riven_requester filtered_releases
                       (overseerr_step overseerr_requester filtered_releases s0))))"

text \<open>
  For stating what a run did: whether the request for one release came back with a
  truthy value, the list of these answers along the loop (each request sees the
  calls made before it), and the flags of a key in the outcome table (a key
  without an entry has no flag set).
\<close>

definition requested_ok :: "request_media \<Rightarrow> event list \<Rightarrow> pydict \<Rightarrow> bool" where
  "requested_ok request hist release =
     (case request hist release of Returns result \<Rightarrow> truthy result | Raises e \<Rightarrow> False)"

fun attempts :: "request_media \<Rightarrow> event list \<Rightarrow> pydict list \<Rightarrow> bool list" where
  "attempts request hist [] = []"
| "attempts request hist (release # rest) =
     requested_ok request hist release # attempts request (hist @ [RequestMedia release]) rest"

definition overseerr_flag :: "(string \<times> release_flags) list \<Rightarrow> string \<Rightarrow> bool" where
  "overseerr_flag table k = (case map_of table k of Some f \<Rightarrow> overseerr f | None \<Rightarrow> False)"

definition riven_flag :: "(string \<times> release_flags) list \<Rightarrow> string \<Rightarrow> bool" where
  "riven_flag table k = (case map_of table k of Some f \<Rightarrow> riven f | None \<Rightarrow> False)"

section \<open>Exceptions and the built-ins \<^verbatim>\<open>str.strip\<close>, \<^verbatim>\<open>int\<close>, \<^verbatim>\<open>float\<close>, \<^verbatim>\<open><\<close> and \<^verbatim>\<open>>\<close>\<close>

text \<open>
  The exception classes that the code of \<^verbatim>\<open>main.py\<close> and \<^verbatim>\<open>config_manager.py\<close>
  raises, or that the interpreter raises in it. \<open>Exception\<close> is the class itself
  (\<^verbatim>\<open>raise Exception(...)\<close>). Messages are left out.
\<close>

datatype error =
    ValueError
  | TypeError
  | AttributeError
  | JSONDecodeError
  | OSError
  | Exception

text \<open>
  The characters \<^verbatim>\<open>str.strip()\<close>, \<^verbatim>\<open>int()\<close> and \<^verbatim>\<open>float()\<close> treat as whitespace, among
  the code points below 256: tab, line feed, vertical tab, form feed, carriage
  return, the separators 28 to 31, space, NEL (133) and the no-break space (160).
\<close>

definition is_space :: "char \<Rightarrow> bool" where
  "is_space c = ((of_char c :: nat) \<in> set [9, 10, 11, 12, 13, 28, 29, 30, 31, 32, 133, 160])"

definition strip :: "string \<Rightarrow> string" where
  "strip s = rev (dropWhile is_space (rev (dropWhile is_space s)))"

definition is_digit :: "char \<Rightarrow> bool" where
  "is_digit c = (48 \<le> (of_char c :: nat) \<and> (of_char c :: nat) \<le> 57)"

definition digit_val :: "char \<Rightarrow> nat" where
  "digit_val c = of_char c - 48"

text \<open>
  A run of decimal digits in which single underscores may stand between digits
  (\<^verbatim>\<open>1_000\<close>), as \<^verbatim>\<open>int\<close> and \<^verbatim>\<open>float\<close> accept it: it starts and ends with a digit
  and has no two underscores in a row. \<open>digits_ok\<close> takes whether the character
  before was a digit.
\<close>

fun digits_ok :: "bool \<Rightarrow> string \<Rightarrow> bool" where
  "digits_ok prev [] = prev"
| "digits_ok prev (c # cs) =
     (if is_digit c then digits_ok True cs
      else if c = CHR ''_'' then prev \<and> digits_ok False cs
      else False)"

definition digits_val :: "string \<Rightarrow> nat" where
  "digits_val s = foldl (\<lambda>n c. 10 * n + digit_val c) 0 (filter is_digit s)"

text \<open>An optional sign in front: the sign (\<open>True\<close> for minus) and the rest.\<close>

fun split_sign :: "string \<Rightarrow> bool \<times> string" where
  "split_sign [] = (False, [])"
| "split_sign (c # cs) =
     (if c = CHR ''-'' then (True, cs) else if c = CHR ''+'' then (False, cs) else (False, c # cs))"

text \<open>\<^verbatim>\<open>int(s)\<close> for a string, base ten; \<open>None\<close> is \<^verbatim>\<open>ValueError\<close>.\<close>

definition py_int :: "string \<Rightarrow> int option" where
  "py_int s =
     (let (neg, ds) = split_sign (strip s)
      in if digits_ok False ds
         then Some (if neg then - int (digits_val ds) else int (digits_val ds))
         else None)"

text \<open>
  \<^verbatim>\<open>str.lower()\<close> on the code points below 256 (the letters A to Z and the
  accented capitals 192 to 222 but the multiplication sign), and \<^verbatim>\<open>s.split(sep)\<close>
  for a separator of one character.
\<close>

definition lower_char :: "char \<Rightarrow> char" where
  "lower_char c =
     (let n = (of_char c :: nat)
      in if (65 \<le> n \<and> n \<le> 90) \<or> (192 \<le> n \<and> n \<le> 222 \<and> n \<noteq> 215)
         then char_of (n + 32) else c)"

definition lower :: "string \<Rightarrow> string" where
  "lower s = map lower_char s"

fun split_on :: "char \<Rightarrow> string \<Rightarrow> string list" where
  "split_on sep [] = [[]]"
| "split_on sep (c # cs) =
     (if c = sep then [] # split_on sep cs
      else (case split_on sep cs of p # ps \<Rightarrow> (c # p) # ps | [] \<Rightarrow> [[c]]))"

text \<open>
  \<^verbatim>\<open>float(s)\<close> for a string; \<open>None\<close> is \<^verbatim>\<open>ValueError\<close>. After the optional sign:
  \<^verbatim>\<open>inf\<close>, \<^verbatim>\<open>infinity\<close> or \<^verbatim>\<open>nan\<close> in any case, or a decimal number, that is digits
  with an optional fraction (one of the two sides of the point may be empty) and
  an optional exponent. The finite value is the exact decimal; Python rounds it
  to the nearest binary64 number, and to an infinity or to zero beyond the
  range of binary64.
\<close>

definition split_at_char :: "(char \<Rightarrow> bool) \<Rightarrow> string \<Rightarrow> string \<times> string option" where
  "split_at_char p s =
     (case dropWhile (\<lambda>c. \<not> p c) s of
        [] \<Rightarrow> (s, None)
      | c # rest \<Rightarrow> (takeWhile (\<lambda>c. \<not> p c) s, Some rest))"

definition mantissa :: "string \<Rightarrow> rat option" where
  "mantissa m =
     (case split_at_char (\<lambda>c. c = CHR ''.'') m of
        (ip, None) \<Rightarrow> if digits_ok False ip then Some (of_nat (digits_val ip)) else None
      | (ip, Some fp) \<Rightarrow>
          if (ip = [] \<or> digits_ok False ip) \<and> (fp = [] \<or> digits_ok False fp) \<and>
             \<not> (ip = [] \<and> fp = [])
          then Some (of_nat (digits_val ip) +
                     of_nat (digits_val fp) / 10 ^ length (filter is_digit fp))
          else None)"

definition exponent :: "string \<Rightarrow> int option" where
  "exponent e =
     (let (neg, ds) = split_sign e
      in if digits_ok False ds
         then Some (if neg then - int (digits_val ds) else int (digits_val ds))
         else None)"

definition py_float :: "string \<Rightarrow> pyfloat option" where
  "py_float s =
     (let (neg, body) = split_sign (strip s)
      in if lower body = ''inf'' \<or> lower body = ''infinity''
         then Some (if neg then NegInf else PosInf)
         else if lower body = ''nan'' then Some NaN
         else
           (case split_at_char (\<lambda>c. c = CHR ''e'' \<or> c = CHR ''E'') body of
              (m, None) \<Rightarrow>
                (case mantissa m of
                   None \<Rightarrow> None
                 | Some q \<Rightarrow> Some (Finite (if neg then - q else q)))
            | (m, Some e) \<Rightarrow>
                (case (mantissa m, exponent e) of
                   (Some q, Some x) \<Rightarrow>
                     Some (Finite ((if neg then - q else q) *
                                   (if x < 0 then 1 / 10 ^ nat (- x) else 10 ^ nat x)))
                 | _ \<Rightarrow> None)))"

text \<open>
  The order of floats: NaN is neither below nor above anything, the infinities
  are the ends.
\<close>

fun float_less :: "pyfloat \<Rightarrow> pyfloat \<Rightarrow> bool" where
  "float_less NaN y = False"
| "float_less x NaN = False"
| "float_less (Finite a) (Finite b) = (a < b)"
| "float_less x NegInf = False"
| "float_less NegInf y = True"
| "float_less PosInf y = False"
| "float_less x PosInf = True"

text \<open>\<^verbatim>\<open>x <= y\<close> on floats: false as soon as one side is NaN.\<close>

definition float_le :: "pyfloat \<Rightarrow> pyfloat \<Rightarrow> bool" where
  "float_le x y = (x \<noteq> NaN \<and> y \<noteq> NaN \<and> \<not> float_less y x)"

text \<open>
  \<^verbatim>\<open>v < n\<close> and \<^verbatim>\<open>v > n\<close> for an integer literal \<open>n\<close>: defined for the numbers (a
  bool counts as 0 or 1, an int is compared exactly with a float), a
  \<^verbatim>\<open>TypeError\<close> for \<^verbatim>\<open>None\<close>, strings, lists and dictionaries.
\<close>

fun number :: "pyval \<Rightarrow> pyfloat option" where
  "number (PBool b) = Some (Finite (if b then 1 else 0))"
| "number (PInt i) = Some (Finite (of_int i))"
| "number (PFloat f) = Some f"
| "number v = None"

definition py_lt_int :: "pyval \<Rightarrow> int \<Rightarrow> error + bool" where
  "py_lt_int v n =
     (case number v of
        None \<Rightarrow> Inl TypeError
      | Some f \<Rightarrow> Inr (float_less f (Finite (of_int n))))"

definition py_gt_int :: "pyval \<Rightarrow> int \<Rightarrow> error + bool" where
  "py_gt_int v n =
     (case number v of
        None \<Rightarrow> Inl TypeError
      | Some f \<Rightarrow> Inr (float_less (Finite (of_int n)) f))"

section \<open>main.py: \<^verbatim>\<open>main\<close>\<close>

text \<open>
  A naive \<^verbatim>\<open>datetime\<close>. \<^verbatim>\<open>replace\<close> builds a new datetime and validates it: the
  hour is 0 to 23, the minute 0 to 59, the day 1 to the number of days of the
  month; otherwise it raises \<^verbatim>\<open>ValueError\<close>.
\<close>

record datetime =
  year :: nat
  month :: nat
  day :: nat
  hour :: nat
  minute :: nat
  second :: nat
  microsecond :: nat

definition is_leap :: "nat \<Rightarrow> bool" where
  "is_leap y = (y mod 4 = 0 \<and> (y mod 100 \<noteq> 0 \<or> y mod 400 = 0))"

definition days_in_month :: "nat \<Rightarrow> nat \<Rightarrow> nat" where
  "days_in_month y m =
     (if m = 2 then (if is_leap y then 29 else 28)
      else if m = 4 \<or> m = 6 \<or> m = 9 \<or> m = 11 then 30
      else 31)"

text \<open>\<^verbatim>\<open>now.replace(hour=h, minute=m, second=0, microsecond=0)\<close>\<close>

definition replace_time :: "datetime \<Rightarrow> int \<Rightarrow> int \<Rightarrow> error + datetime" where
  "replace_time now h m =
     (if 0 \<le> h \<and> h \<le> 23 \<and> 0 \<le> m \<and> m \<le> 59
      then Inr (now\<lparr>hour := nat h, minute := nat m, second := 0, microsecond := 0\<rparr>)
      else Inl ValueError)"

text \<open>\<^verbatim>\<open>next_run.replace(day=d)\<close>\<close>

definition replace_day :: "datetime \<Rightarrow> nat \<Rightarrow> error + datetime" where
  "replace_day dt d =
     (if 1 \<le> d \<and> d \<le> days_in_month (year dt) (month dt)
      then Inr (dt\<lparr>day := d\<rparr>)
      else Inl ValueError)"

text \<open>\<^verbatim>\<open>a <= b\<close> on datetimes: the order of the fields, from the year down.\<close>

definition datetime_key :: "datetime \<Rightarrow> nat list" where
  "datetime_key dt = [year dt, month dt, day dt, hour dt, minute dt, second dt, microsecond dt]"

fun list_le :: "nat list \<Rightarrow> nat list \<Rightarrow> bool" where
  "list_le [] ys = True"
| "list_le (x # xs) [] = False"
| "list_le (x # xs) (y # ys) = (x < y \<or> (x = y \<and> list_le xs ys))"

definition datetime_le :: "datetime \<Rightarrow> datetime \<Rightarrow> bool" where
  "datetime_le a b = list_le (datetime_key a) (datetime_key b)"

text \<open>
  \<^verbatim>\<open>target_hour, target_minute = map(int, run_time.split(":"))\<close>: the unpacking
  wants exactly two parts and \<^verbatim>\<open>int\<close> must accept those it reads; everything else
  is a \<^verbatim>\<open>ValueError\<close>. (With more than two parts the third is converted before
  the count is found wrong; both failures are \<^verbatim>\<open>ValueError\<close>.)
\<close>

definition parse_run_time :: "string \<Rightarrow> error + (int \<times> int)" where
  "parse_run_time run_time =
     (case map py_int (split_on (CHR '':'') run_time) of
        [Some target_hour, Some target_minute] \<Rightarrow> Inr (target_hour, target_minute)
      | _ \<Rightarrow> Inl ValueError)"

text \<open>
  The start of one turn of the scheduling loop, up to \<^verbatim>\<open>time.sleep(sleep_seconds)\<close>:
  the next run time from the current time. The run time read from the
  configuration is any value; \<^verbatim>\<open>.split\<close> exists on strings only.
  \<^verbatim>\<open>sleep_seconds\<close> is positive whenever this returns, so the sleep does not raise.
\<close>

definition next_run_time :: "pyval \<Rightarrow> datetime \<Rightarrow> error + datetime" where
  "next_run_time run_time now =
     (case run_time of
        PStr rt \<Rightarrow>
          (case parse_run_time rt of
             Inl e \<Rightarrow> Inl e
           | Inr (target_hour, target_minute) \<Rightarrow>
               (case replace_time now target_hour target_minute of
                  Inl e \<Rightarrow> Inl e
                | Inr next_run \<Rightarrow>
                    if datetime_le next_run now then replace_day next_run (day now + 1)
                    else Inr next_run))
      | _ \<Rightarrow> Inl AttributeError)"

text \<open>
  \<^verbatim>\<open>if request_delay_minutes > 0: time.sleep(request_delay_minutes * 60)\<close>. The
  comparison raises for a value that is not a number; the sleep is taken to
  return.
\<close>

definition request_delay :: "pyval \<Rightarrow> error + unit" where
  "request_delay request_delay_minutes =
     (case py_gt_int request_delay_minutes 0 of Inl e \<Rightarrow> Inl e | Inr b \<Rightarrow> Inr ())"

text \<open>
  One turn of the loop meets the current time and, if it gets that far, one
  \<^verbatim>\<open>run_check\<close>, given here by its result. What the turn did is reported: the
  check completed, or an error was caught and logged by the handler inside the
  loop.
\<close>

record cycle =
  cycle_now :: datetime
  cycle_check :: run_result

datatype report = CheckCompleted | ErrorDuringCheck

text \<open>The body of the \<^verbatim>\<open>try\<close> inside the loop, with its handler.\<close>

definition guarded_check :: "pyval \<Rightarrow> run_result \<Rightarrow> report" where
  "guarded_check request_delay_minutes check =
     (case request_delay request_delay_minutes of
        Inl e \<Rightarrow> ErrorDuringCheck
      | Inr u \<Rightarrow>
          (case check of
             Completed s \<Rightarrow> CheckCompleted
           | Propagated e s \<Rightarrow> ErrorDuringCheck))"

text \<open>
  \<^verbatim>\<open>while True\<close>, over the turns the process lives to start. An exception of the
  scheduling part leaves the loop for the outer handler of \<^verbatim>\<open>main\<close>, which returns
  1. The loop has no other exit: when the turns are used up the process is still
  in it, and there is no exit code (\<open>None\<close>).
\<close>

fun scheduled_loop :: "pyval \<Rightarrow> pyval \<Rightarrow> cycle list \<Rightarrow> nat option \<times> report list" where
  "scheduled_loop run_time request_delay_minutes [] = (None, [])"
| "scheduled_loop run_time request_delay_minutes (c # cs) =
     (case next_run_time run_time (cycle_now c) of
        Inl e \<Rightarrow> (Some 1, [])
      | Inr next_run \<Rightarrow>
          (let r = guarded_check request_delay_minutes (cycle_check c);
               (code, rs) = scheduled_loop run_time request_delay_minutes cs
           in (code, r # rs)))"

text \<open>
  \<^verbatim>\<open>config.get(section, {}).get(key)\<close>: the section must be a dictionary.
\<close>

definition section_get :: "pydict \<Rightarrow> string \<Rightarrow> string \<Rightarrow> error + pyval" where
  "section_get config section key =
     (case py_get_or config section (PDict []) of
        PDict d \<Rightarrow> Inr (py_get d key)
      | _ \<Rightarrow> Inl AttributeError)"

text \<open>
  The part of \<^verbatim>\<open>main\<close> between \<^verbatim>\<open>setup_logging\<close> and the construction of the
  components: which services are enabled, the two checks that raise
  \<^verbatim>\<open>ValueError\<close>, and \<^verbatim>\<open>config.get("release_source", "tmdb").lower()\<close>, which needs
  a string. It yields whether Overseerr and Riven are enabled.
\<close>

definition startup_checks :: "pydict \<Rightarrow> error + (bool \<times> bool)" where
  "startup_checks config =
     (case section_get config ''overseerr'' ''api_key'' of
        Inl e \<Rightarrow> Inl e
      | Inr ov_key \<Rightarrow>
     (case section_get config ''riven'' ''api_key'' of
        Inl e \<Rightarrow> Inl e
      | Inr rv_key \<Rightarrow>
     (case section_get config ''discord'' ''webhook_url'' of
        Inl e \<Rightarrow> Inl e
      | Inr webhook \<Rightarrow>
          if \<not> truthy ov_key \<and> \<not> truthy rv_key then Inl ValueError
          else
            (case section_get config ''tmdb'' ''api_key'' of
               Inl e \<Rightarrow> Inl e
             | Inr tmdb_key \<Rightarrow>
                 if \<not> truthy tmdb_key then Inl ValueError
                 else
                   (case py_get_or config ''release_source'' (PStr ''tmdb'') of
                      PStr src \<Rightarrow> Inr (truthy ov_key, truthy rv_key)
                    | _ \<Rightarrow> Inl AttributeError)))))"

text \<open>
  \<^verbatim>\<open>main\<close>. Its surroundings are parameters: the outcome of \<^verbatim>\<open>load_config()\<close>, of
  \<^verbatim>\<open>setup_logging\<close> and of the construction of the components (an exception of any
  of them reaches the outer handler), and the turns of the loop; in the run-once
  mode the single \<^verbatim>\<open>run_check\<close> is the check of the first turn. The exit code is
  \<open>None\<close> while the process is still in the scheduling loop.
\<close>

definition main ::
  "(error + pydict) \<Rightarrow> unit outcome \<Rightarrow> unit outcome \<Rightarrow> cycle list \<Rightarrow> nat option \<times> report list" where
  "main loaded logging_setup components cycles =
     (case loaded of
        Inl e \<Rightarrow> (Some 1, [])
      | Inr config \<Rightarrow>
     (case logging_setup of
        Raises e \<Rightarrow> (Some 1, [])
      | Returns u \<Rightarrow>
     (case startup_checks config of
        Inl e \<Rightarrow> (Some 1, [])
      | Inr enabled \<Rightarrow>
     (case components of
        Raises e \<Rightarrow> (Some 1, [])
      | Returns u \<Rightarrow>
          (let run_time = py_get_or config ''run_time'' (PStr []);
               request_delay_minutes = py_get_or config ''request_delay_minutes'' (PInt 0)
           in if \<not> truthy run_time then
                (case request_delay request_delay_minutes of
                   Inl e \<Rightarrow> (Some 1, [])
                 | Inr u \<Rightarrow>
                     (case cycles of
                        [] \<Rightarrow> (None, [])
                      | c # cs \<Rightarrow>
                          (case cycle_check c of
                             Completed s \<Rightarrow> (Some 0, [CheckCompleted])
                           | Propagated e s \<Rightarrow> (Some 1, []))))
              else scheduled_loop run_time request_delay_minutes cycles)))))"

section \<open>config\_manager.py\<close>

text \<open>
  \<^verbatim>\<open>DEFAULT_SETTINGS\<close>. A dictionary's keys are distinct.
\<close>

definition DEFAULT_SETTINGS :: pydict where
  "DEFAULT_SETTINGS =
     [(''overseerr'', PDict [(''api_url'', PStr []), (''api_key'', PStr [])]),
      (''riven'', PDict [(''api_url'', PStr []), (''api_key'', PStr [])]),
      (''tmdb'', PDict [(''api_key'', PStr [])]),
      (''filters'', PDict [(''min_tmdb_rating'', PInt 0),
                           (''exclude_adult'', PBool True),
                           (''allowed_languages'', PList []),
                           (''excluded_genres'', PList []),
                           (''excluded_certifications'', PList [])]),
      (''release_source'', PStr ''tmdb''),
      (''run_time'', PStr []),
      (''request_delay_minutes'', PInt 0),
      (''logging'', PDict [(''level'', PStr ''INFO'')]),
      (''discord'', PDict [(''webhook_url'', PStr [])])]"

text \<open>
  \<^verbatim>\<open>{**a, **b}\<close>: the keys of \<^verbatim>\<open>a\<close> in their order with the values of \<^verbatim>\<open>b\<close> where it
  has the key, then the new keys of \<^verbatim>\<open>b\<close>.
\<close>

definition dict_merge :: "pydict \<Rightarrow> pydict \<Rightarrow> pydict" where
  "dict_merge a b = foldl (\<lambda>d kv. AList.update (fst kv) (snd kv) d) a b"

text \<open>
  The loop of \<^verbatim>\<open>_merge_with_defaults\<close> over \<^verbatim>\<open>config.items()\<close>. Unpacking a
  default that is not a dictionary with \<^verbatim>\<open>**\<close> is a \<^verbatim>\<open>TypeError\<close>.
\<close>

fun merge_loop :: "(string \<times> pyval) list \<Rightarrow> pydict \<Rightarrow> error + pydict" where
  "merge_loop [] merged = Inr merged"
| "merge_loop ((key, val) # rest) merged =
     (case (val, map_of merged key) of
        (PDict d, Some (PDict m)) \<Rightarrow> merge_loop rest (AList.update key (PDict (dict_merge m d)) merged)
      | (PDict d, Some other) \<Rightarrow> Inl TypeError
      | _ \<Rightarrow> merge_loop rest (AList.update key val merged))"

text \<open>
  \<^verbatim>\<open>_merge_with_defaults\<close>: what \<^verbatim>\<open>json.load\<close> returned has \<^verbatim>\<open>.items()\<close> only if it
  is a dictionary.
\<close>

definition merge_with_defaults :: "pyval \<Rightarrow> error + pydict" where
  "merge_with_defaults config =
     (case config of
        PDict d \<Rightarrow> merge_loop d DEFAULT_SETTINGS
      | _ \<Rightarrow> Inl AttributeError)"

text \<open>
  The two tables of \<^verbatim>\<open>_apply_env_overrides\<close>, in the order the loops visit them.
  An entry of \<^verbatim>\<open>env_map\<close> without a type has the type \<^verbatim>\<open>"str"\<close>.
\<close>

datatype data_type = TStr | TBool | TInt | TFloat | TList

definition env_map :: "(string \<times> string \<times> string \<times> data_type) list" where
  "env_map =
     [(''OVERSEERR_API_KEY'', ''overseerr'', ''api_key'', TStr),
      (''OVERSEERR_API_URL'', ''overseerr'', ''api_url'', TStr),
      (''RIVEN_API_KEY'', ''riven'', ''api_key'', TStr),
      (''RIVEN_API_URL'', ''riven'', ''api_url'', TStr),
      (''TMDB_API_KEY'', ''tmdb'', ''api_key'', TStr),
      (''DISCORD_WEBHOOK_URL'', ''discord'', ''webhook_url'', TStr),
      (''FILTERS_MIN_TMDB_RATING'', ''filters'', ''min_tmdb_rating'', TFloat),
      (''FILTERS_EXCLUDE_ADULT'', ''filters'', ''exclude_adult'', TBool),
      (''FILTERS_ALLOWED_LANGUAGES'', ''filters'', ''allowed_languages'', TList),
      (''FILTERS_EXCLUDED_GENRES'', ''filters'', ''excluded_genres'', TList),
      (''FILTERS_EXCLUDED_CERTIFICATIONS'', ''filters'', ''excluded_certifications'', TList),
      (''LOGGING_LEVEL'', ''logging'', ''level'', TStr)]"

definition top_level_map :: "(string \<times> string \<times> data_type) list" where
  "top_level_map =
     [(''RELEASE_SOURCE'', ''release_source'', TStr),
      (''RUN_TIME'', ''run_time'', TStr),
      (''REQUEST_DELAY_MINUTES'', ''request_delay_minutes'', TInt)]"

text \<open>The conversion of the nested loop, and the shorter one of the top-level loop.\<close>

definition convert :: "data_type \<Rightarrow> string \<Rightarrow> error + pyval" where
  "convert data_type s =
     (case data_type of
        TBool \<Rightarrow> Inr (PBool (lower s \<in> set [''true'', ''1'', ''yes'', ''on'']))
      | TInt \<Rightarrow> (case py_int s of None \<Rightarrow> Inl ValueError | Some i \<Rightarrow> Inr (PInt i))
      | TFloat \<Rightarrow> (case py_float s of None \<Rightarrow> Inl ValueError | Some f \<Rightarrow> Inr (PFloat f))
      | TList \<Rightarrow>
          Inr (PList (map (\<lambda>item. PStr (strip item))
                          (filter (\<lambda>item. strip item \<noteq> []) (split_on (CHR '','') s))))
      | TStr \<Rightarrow> Inr (PStr s))"

definition convert_top :: "data_type \<Rightarrow> string \<Rightarrow> error + pyval" where
  "convert_top data_type s =
     (case data_type of
        TInt \<Rightarrow> (case py_int s of None \<Rightarrow> Inl ValueError | Some i \<Rightarrow> Inr (PInt i))
      | TFloat \<Rightarrow> (case py_float s of None \<Rightarrow> Inl ValueError | Some f \<Rightarrow> Inr (PFloat f))
      | _ \<Rightarrow> Inr (PStr s))"

text \<open>
  One turn of the nested loop, under \<^verbatim>\<open>if value is not None and value.strip()\<close>:
  a variable that is unset or blank changes nothing. The section is created if the configuration lacks
  it; the right-hand side is evaluated before the assignment, which needs the
  section to be a dictionary (\<^verbatim>\<open>TypeError\<close> otherwise).
\<close>

definition apply_nested ::
  "(string \<Rightarrow> string option) \<Rightarrow> string \<times> string \<times> string \<times> data_type \<Rightarrow> pydict \<Rightarrow> error + pydict" where
  "apply_nested getenv entry config =
     (case entry of (env_var, section, key, data_type) \<Rightarrow>
        (case getenv env_var of
           None \<Rightarrow> Inr config
         | Some s \<Rightarrow>
             if strip s = [] then Inr config
             else
               (let config1 = (if map_of config section = None
                               then AList.update section (PDict []) config else config)
                in case convert data_type s of
                     Inl e \<Rightarrow> Inl e
                   | Inr v \<Rightarrow>
                       (case map_of config1 section of
                          Some (PDict d) \<Rightarrow>
                            Inr (AList.update section (PDict (AList.update key v d)) config1)
                        | _ \<Rightarrow> Inl TypeError))))"

definition apply_top ::
  "(string \<Rightarrow> string option) \<Rightarrow> string \<times> string \<times> data_type \<Rightarrow> pydict \<Rightarrow> error + pydict" where
  "apply_top getenv entry config =
     (case entry of (env_var, key, data_type) \<Rightarrow>
        (case getenv env_var of
           None \<Rightarrow> Inr config
         | Some s \<Rightarrow>
             if strip s = [] then Inr config
             else
               (case convert_top data_type s of
                  Inl e \<Rightarrow> Inl e
                | Inr v \<Rightarrow> Inr (AList.update key v config))))"

text \<open>A loop stops at the first exception.\<close>

fun for_each :: "('a \<Rightarrow> pydict \<Rightarrow> error + pydict) \<Rightarrow> 'a list \<Rightarrow> pydict \<Rightarrow> error + pydict" where
  "for_each body [] config = Inr config"
| "for_each body (x # xs) config =
     (case body x config of Inl e \<Rightarrow> Inl e | Inr config1 \<Rightarrow> for_each body xs config1)"

definition apply_env_overrides :: "(string \<Rightarrow> string option) \<Rightarrow> pydict \<Rightarrow> error + pydict" where
  "apply_env_overrides getenv config =
     (case for_each (apply_nested getenv) env_map config of
        Inl e \<Rightarrow> Inl e
      | Inr config1 \<Rightarrow> for_each (apply_top getenv) top_level_map config1)"

text \<open>
  \<^verbatim>\<open>url and not (url.startswith("http://") or url.startswith("https://"))\<close>: a
  falsy value passes, a string is checked, any other truthy value has no
  \<^verbatim>\<open>startswith\<close>.
\<close>

definition bad_url :: "pyval \<Rightarrow> error + bool" where
  "bad_url url =
     (if \<not> truthy url then Inr False
      else (case url of
              PStr s \<Rightarrow> Inr (\<not> (prefix ''http://'' s \<or> prefix ''https://'' s))
            | _ \<Rightarrow> Inl AttributeError))"

text \<open>
  The URL check of one service in \<^verbatim>\<open>_validate_config\<close>; it yields whether the
  service is configured.
\<close>

definition validate_service :: "pydict \<Rightarrow> string \<Rightarrow> error + bool" where
  "validate_service config service =
     (case py_get_or config service (PDict []) of
        PDict d \<Rightarrow>
          (if truthy (py_get d ''api_key'') then
             (case bad_url (py_get_or d ''api_url'' (PStr [])) of
                Inl e \<Rightarrow> Inl e
              | Inr bad \<Rightarrow> if bad then Inl ValueError else Inr True)
           else Inr False)
      | _ \<Rightarrow> Inl AttributeError)"

text \<open>
  \<^verbatim>\<open>_validate_config\<close>. Both keys are read before either URL is checked; the
  filters come last.
\<close>

definition validate_config :: "pydict \<Rightarrow> error + unit" where
  "validate_config config =
     (case section_get config ''overseerr'' ''api_key'' of
        Inl e \<Rightarrow> Inl e
      | Inr ov_key \<Rightarrow>
     (case section_get config ''riven'' ''api_key'' of
        Inl e \<Rightarrow> Inl e
      | Inr rv_key \<Rightarrow>
     (case validate_service config ''overseerr'' of
        Inl e \<Rightarrow> Inl e
      | Inr ov \<Rightarrow>
     (case validate_service config ''riven'' of
        Inl e \<Rightarrow> Inl e
      | Inr rv \<Rightarrow>
     (case py_get_or config ''filters'' (PDict []) of
        PDict filters \<Rightarrow>
          (case py_lt_int (py_get_or filters ''min_tmdb_rating'' (PInt 0)) 0 of
             Inl e \<Rightarrow> Inl e
           | Inr too_low \<Rightarrow>
               if too_low then Inl ValueError
               else
                 (case py_gt_int (py_get_or filters ''min_tmdb_rating'' (PInt 0)) 10 of
                    Inl e \<Rightarrow> Inl e
                  | Inr too_high \<Rightarrow> if too_high then Inl ValueError else Inr ()))
      | _ \<Rightarrow> Inl AttributeError)))))"

text \<open>
  The settings file as \<^verbatim>\<open>load_config\<close> finds it: absent, not readable (\<^verbatim>\<open>open\<close>
  raises), not JSON (\<^verbatim>\<open>json.load\<close> raises \<^verbatim>\<open>JSONDecodeError\<close>), or parsed.
\<close>

datatype settings_file = Missing | Unreadable | Malformed | Parsed pyval

text \<open>
  \<^verbatim>\<open>load_config\<close>, from the settings file and the environment. The first handler
  turns a \<^verbatim>\<open>JSONDecodeError\<close> into a \<^verbatim>\<open>ValueError\<close>, the second every other
  exception into an \<^verbatim>\<open>Exception\<close>. Without a file the defaults are used and saved;
  \<^verbatim>\<open>_save_config\<close> catches its own exceptions and changes nothing here.
\<close>

definition load_config :: "settings_file \<Rightarrow> (string \<Rightarrow> string option) \<Rightarrow> error + pydict" where
  "load_config file getenv =
     (let body =
        (case (case file of
                 Missing \<Rightarrow> Inr DEFAULT_SETTINGS
               | Unreadable \<Rightarrow> Inl OSError
               | Malformed \<Rightarrow> Inl JSONDecodeError
               | Parsed json \<Rightarrow> merge_with_defaults json) of
           Inl e \<Rightarrow> Inl e
         | Inr config \<Rightarrow>
             (case apply_env_overrides getenv config of
                Inl e \<Rightarrow> Inl e
              | Inr config1 \<Rightarrow>
                  (case validate_config config1 of
                     Inl e \<Rightarrow> Inl e
                   | Inr u \<Rightarrow> Inr config1)))
      in case body of
           Inl JSONDecodeError \<Rightarrow> Inl ValueError
         | Inl e \<Rightarrow> Inl Exception
         | Inr config \<Rightarrow> Inr config)"

text \<open>
  For stating the properties: the value at \<^verbatim>\<open>config[section][key]\<close>, if there is
  one.
\<close>

definition nested_value :: "pydict \<Rightarrow> string \<Rightarrow> string \<Rightarrow> pyval option" where
  "nested_value config section key =
     (case map_of config section of
        Some (PDict d) \<Rightarrow> map_of d key
      | _ \<Rightarrow> None)"


section \<open>The filter engine\<close>

text \<open>
  Modelled from the spec: the filter configuration of its data model. The filter
  engine (\<^verbatim>\<open>filters.py\<close>, class \<^verbatim>\<open>FilterEngine\<close>) is imported by \<^verbatim>\<open>main.py\<close> but is
  not among the repository's files at hand; the definitions of this section
  follow section 4.1 of the specification.
\<close>

record filter_config =
  min_tmdb_rating :: pyfloat
  exclude_adult :: bool
  allowed_languages :: "string list"
  excluded_genres :: "string list"
  excluded_certifications :: "string list"

text \<open>
  Modelled from the spec: the attributes of a release that the admission test
  reads. A release is the dictionary the release source produced; a missing or
  non-numeric rating counts as 0, a missing \<^verbatim>\<open>adult\<close> as false, a missing language
  or certification as the empty string, missing genres as none.
\<close>

definition release_rating :: "pydict \<Rightarrow> pyfloat" where
  "release_rating release =
     (case number (py_get_or release ''vote_average'' (PInt 0)) of
        Some f \<Rightarrow> f
      | None \<Rightarrow> Finite 0)"

definition release_adult :: "pydict \<Rightarrow> bool" where
  "release_adult release = truthy (py_get_or release ''adult'' (PBool False))"

definition release_string :: "pydict \<Rightarrow> string \<Rightarrow> string" where
  "release_string release k = (case py_get release k of PStr s \<Rightarrow> s | _ \<Rightarrow> [])"

definition release_genres :: "pydict \<Rightarrow> string list" where
  "release_genres release =
     (case py_get release ''genre_names'' of
        PList gs \<Rightarrow> List.map_filter (\<lambda>g. case g of PStr s \<Rightarrow> Some s | _ \<Rightarrow> None) gs
      | _ \<Rightarrow> [])"

text \<open>
  Modelled from the spec: the admission test of section 4.1, its five conditions
  in the order of the specification.
  \<^enum> \<^verbatim>\<open>vote_average >= min_tmdb_rating\<close>.
  \<^enum> If \<^verbatim>\<open>exclude_adult\<close> is true, \<^verbatim>\<open>adult\<close> is false.
  \<^enum> If \<^verbatim>\<open>allowed_languages\<close> is not empty, \<^verbatim>\<open>original_language\<close> is one of them
    (case-sensitive).
  \<^enum> If \<^verbatim>\<open>excluded_genres\<close> is not empty, no genre name matches an excluded genre,
    case-insensitively.
  \<^enum> If \<^verbatim>\<open>excluded_certifications\<close> is not empty, the certification does not match
    an excluded one, case-insensitively; an empty certification passes.
\<close>

definition admits :: "filter_config \<Rightarrow> pydict \<Rightarrow> bool" where
  "admits cfg release =
     (float_le (min_tmdb_rating cfg) (release_rating release)
      \<and> (if exclude_adult cfg then \<not> release_adult release else True)
      \<and> (if allowed_languages cfg \<noteq> []
          then release_string release ''original_language'' \<in> set (allowed_languages cfg)
          else True)
      \<and> (if excluded_genres cfg \<noteq> []
          then \<not> list_ex (\<lambda>g. lower g \<in> set (map lower (excluded_genres cfg)))
                          (release_genres release)
          else True)
      \<and> (if excluded_certifications cfg \<noteq> []
          then release_string release ''certification'' = []
               \<or> lower (release_string release ''certification'')
                    \<notin> set (map lower (excluded_certifications cfg))
          else True))"

text \<open>
  Modelled from the spec: \<^verbatim>\<open>apply_filters\<close> keeps the releases that pass the
  admission test and drops the others silently.
\<close>

definition apply_filters :: "filter_config \<Rightarrow> pydict list \<Rightarrow> pydict list" where
  "apply_filters cfg releases = filter (admits cfg) releases"

section \<open>Auxiliary definitions for the Riven sink's properties\<close>

text \<open>
  The log as \<^verbatim>\<open>_add_items\<close> leaves it just before its POST: the query for the
  Unknown items, then the bulk removal if any of the target ids was found.
\<close>

definition hist_before_add ::
  "network \<Rightarrow> event list \<Rightarrow> riven_requester \<Rightarrow> string \<Rightarrow> string list \<Rightarrow> event list" where
  "hist_before_add net hist rq media_type tmdb_ids =
     (let items_to_remove =
            List.map_filter (map_of (fst (get_unknown_items net hist rq media_type))) tmdb_ids
      in hist @ [Http (unknown_items_request rq media_type)] @
         (if items_to_remove = [] then [] else [Http (remove_request rq items_to_remove)]))"

text \<open>A Riven backend, a network and two releases to run the sink on.\<close>

definition demo_rq :: riven_requester where
  "demo_rq = \<lparr>api_url = ''http://riven:8080'', api_key = ''k''\<rparr>"

definition demo_net :: network where
  "demo_net hist req =
     (case req of
        GET url headers params \<Rightarrow>
          Response 200
            (Some (PDict [(''items'', PList [PDict [(''tmdb_id'', PInt 603), (''id'', PStr ''a1'')],
                                            PDict [(''tmdb_id'', PInt 11), (''id'', PInt 7)]])]))
            []
      | DELETE url headers body \<Rightarrow> RequestException ''timed out''
      | POST url headers body \<Rightarrow> Response 404 None [])"

definition demo_releases :: "pydict list" where
  "demo_releases =
     [[(''tmdb_id'', PInt 603), (''type'', PStr ''movie'')],
      [(''tmdb_id'', PInt 604), (''type'', PStr ''movie'')]]"


text \<open>
  A network on which every request succeeds, three releases for the Overseerr
  loop with a requester that fails on the second, a notifier, and a release as
  the scraper's TMDB lookup builds it.
\<close>

definition demo_net_ok :: network where
  "demo_net_ok hist req = Response 200 (Some (PDict [(''items'', PList [])])) []"



definition demo_notifier :: discord_notifier where
  "demo_notifier =
     \<lparr>notifier_enabled = True, send_release_notifications = (\<lambda>hist rs table. Returns ())\<rparr>"

definition demo_movie :: pydict where
  "demo_movie =
     [(''id'', PInt 603), (''title'', PStr ''The Matrix''), (''vote_average'', PInt 8),
      (''original_language'', PStr ''en''), (''adult'', PBool False)]"

definition demo_dvd_release :: pydict where
  "demo_dvd_release =
     [(''id'', PInt 603), (''title'', PStr ''The Matrix''), (''overview'', PStr []),
      (''vote_average'', PInt 8), (''poster_path'', PNone), (''release_date'', PStr []),
      (''original_language'', PStr ''en''), (''adult'', PBool False),
      (''genre_names'', PList [PStr ''Action'']), (''certification'', PStr ''R''),
      (''media_type'', PStr ''movie'')]"

text \<open>
  A configuration with Riven and TMDB keys that schedules the check daily at
  19:00, and two turns of the loop: the process starts on 30 January at 20:00,
  sleeps until 31 January 19:00, runs its check, and comes back to the head of
  the loop seven seconds later.
\<close>

definition demo_config :: pydict where
  "demo_config =
     [(''riven'', PDict [(''api_url'', PStr ''http://riven:8080''), (''api_key'', PStr ''k'')]),
      (''tmdb'', PDict [(''api_key'', PStr ''t'')]),
      (''release_source'', PStr ''tmdb''),
      (''run_time'', PStr ''19:00''),
      (''request_delay_minutes'', PInt 0)]"

definition demo_done :: run_result where
  "demo_done = Completed \<lparr>calls = [], release_results = [], overseerr_successful = 0,
                           overseerr_failed = 0, riven_success_count = 0, riven_failed_count = 0\<rparr>"

definition demo_start :: datetime where
  "demo_start = \<lparr>year = 2025, month = 1, day = 30, hour = 20, minute = 0, second = 0,
                  microsecond = 0\<rparr>"

definition demo_back :: datetime where
  "demo_back = \<lparr>year = 2025, month = 1, day = 31, hour = 19, minute = 0, second = 7,
                 microsecond = 0\<rparr>"

definition demo_cycles :: "cycle list" where
  "demo_cycles =
     [\<lparr>cycle_now = demo_start, cycle_check = demo_done\<rparr>,
      \<lparr>cycle_now = demo_back, cycle_check = demo_done\<rparr>]"


definition nan_getenv :: "string \<Rightarrow> string option" where
  "nan_getenv v = (if v = ''FILTERS_MIN_TMDB_RATING'' then Some ''nan'' else None)"

definition nan_config :: pydict where
  "nan_config =
     [(''overseerr'', PDict [(''api_url'', PStr []), (''api_key'', PStr [])]),
      (''riven'', PDict [(''api_url'', PStr []), (''api_key'', PStr [])]),
      (''tmdb'', PDict [(''api_key'', PStr [])]),
      (''filters'', PDict [(''min_tmdb_rating'', PFloat NaN),
                           (''exclude_adult'', PBool True),
                           (''allowed_languages'', PList []),
                           (''excluded_genres'', PList []),
                           (''excluded_certifications'', PList [])]),
      (''release_source'', PStr ''tmdb''),
      (''run_time'', PStr []),
      (''request_delay_minutes'', PInt 0),
      (''logging'', PDict [(''level'', PStr ''INFO'')]),
      (''discord'', PDict [(''webhook_url'', PStr [])])]"


text \<open>
  The specification's scenario for the filter: three releases rated 4.0, 7.5 and
  7.5, and a minimum rating of 5.
\<close>

definition demo_filter_config :: filter_config where
  "demo_filter_config =
     \<lparr>min_tmdb_rating = Finite 5, exclude_adult = True, allowed_languages = [],
      excluded_genres = [''Horror''], excluded_certifications = [''R'']\<rparr>"

definition demo_rated :: "pydict list" where
  "demo_rated =
     [[(''tmdb_id'', PInt 1), (''vote_average'', PFloat (Finite 4)),
       (''genre_names'', PList [PStr ''Comedy''])],
      [(''tmdb_id'', PInt 2), (''vote_average'', PFloat (Finite (15 / 2))),
       (''genre_names'', PList [PStr ''Comedy'']), (''certification'', PStr [])],
      [(''tmdb_id'', PInt 3), (''vote_average'', PFloat (Finite (15 / 2))),
       (''genre_names'', PList [PStr ''Drama'']), (''certification'', PStr ''PG'')]]"

section \<open>Properties of the Riven sink\<close>

lemma py_str_int_example: "py_str (PInt 603) = ''603''"
  by (simp add: py_str_def str_int_def str_nat.simps)

text \<open>
  C9. Whatever the releases, if the configured Riven API key or API URL is empty,
  \<^verbatim>\<open>add_media\<close> returns \<^verbatim>\<open>{"success": 0, "failed": 0, "results": []}\<close> and makes no
  request: the log of calls is the one it was given, whatever the network would
  have answered.
\<close>

theorem add_media_not_enabled:
  "api_key rq = [] \<or> api_url rq = [] \<Longrightarrow>
   add_media net hist rq releases = (\<lparr>success = 0, failed = 0, results = []\<rparr>, hist)"
  by (auto simp: add_media_def is_enabled_def)

theorem add_media_not_enabled_witness:
  "add_media (\<lambda>h q. Response 200 None []) []
     \<lparr>api_url = ''http://localhost:8083'', api_key = []\<rparr>
     [[(''tmdb_id'', PInt 603), (''type'', PStr ''movie'')]]
   = (\<lparr>success = 0, failed = 0, results = []\<rparr>, [])"
  using add_media_not_enabled
    [of "\<lparr>api_url = ''http://localhost:8083'', api_key = []\<rparr>"
        "\<lambda>h q. Response 200 None []" "[]"
        "[[(''tmdb_id'', PInt 603), (''type'', PStr ''movie'')]]"]
  by simp

lemma snd_get_unknown_items:
  "snd (get_unknown_items net hist rq media_type) = hist @ [Http (unknown_items_request rq media_type)]"
  by (simp add: get_unknown_items_def Let_def)

lemma snd_remove_items:
  "ids \<noteq> [] \<Longrightarrow> snd (remove_items net hist rq ids) = hist @ [Http (remove_request rq ids)]"
  by (simp add: remove_items_def Let_def)

lemma add_items_unfold:
  assumes "map (\<lambda>r. py_str (py_get r ''tmdb_id''))
             (filter (\<lambda>r. truthy (py_get r ''tmdb_id'')) releases) = tmdb_ids"
    and "tmdb_ids \<noteq> []"
  shows "add_items net hist rq media_type releases =
     ((case net (hist_before_add net hist rq media_type tmdb_ids)
                (add_request rq media_type tmdb_ids) of
         Response status body txt \<Rightarrow>
           (if status = 200 then
              \<lparr>success = length tmdb_ids, failed = 0,
               results = [PDict [(''status'', PStr ''success''),
                                 (''ids'', PList (map PStr tmdb_ids))]]\<rparr>
            else if status = 404 then
              \<lparr>success = 0, failed = length tmdb_ids,
               results = [PDict [(''status'', PStr ''error''), (''code'', PInt 404),
                                 (''message'', PStr ''Not found'')]]\<rparr>
            else if status = 422 then
              \<lparr>success = 0, failed = length tmdb_ids,
               results = [PDict [(''status'', PStr ''error''), (''code'', PInt 422),
                                 (''message'', PStr ''Validation error'')]]\<rparr>
            else
              \<lparr>success = 0, failed = length tmdb_ids,
               results = [PDict [(''status'', PStr ''error''),
                                 (''code'', PInt (int status))]]\<rparr>)
       | RequestException e \<Rightarrow>
           \<lparr>success = 0, failed = length releases,
            results = [PDict [(''status'', PStr ''error''), (''message'', PStr e)]]\<rparr>
       | OtherException e \<Rightarrow>
           \<lparr>success = 0, failed = length releases,
            results = [PDict [(''status'', PStr ''error''), (''message'', PStr e)]]\<rparr>),
      hist_before_add net hist rq media_type tmdb_ids @ [Http (add_request rq media_type tmdb_ids)])"
proof -
  obtain u h1 where g: "get_unknown_items net hist rq media_type = (u, h1)"
    by (cases "get_unknown_items net hist rq media_type")
  have h1: "h1 = hist @ [Http (unknown_items_request rq media_type)]"
    using snd_get_unknown_items [of net hist rq media_type] g by simp
  show ?thesis
    using assms(2)
    by (simp add: add_items_def assms(1) Let_def g h1 hist_before_add_def snd_remove_items)
qed

lemma filter_all_truthy:
  "list_all (\<lambda>r. truthy (py_get r ''tmdb_id'')) releases \<Longrightarrow>
   filter (\<lambda>r. truthy (py_get r ''tmdb_id'')) releases = releases"
  by (induction releases) auto

lemma detail_entries_distinct:
  "distinct
     [PDict [(''status'', PStr ''success''), (''ids'', PList (map PStr ids))],
      PDict [(''status'', PStr ''error''), (''code'', PInt 404), (''message'', PStr ''Not found'')],
      PDict [(''status'', PStr ''error''), (''code'', PInt 422),
             (''message'', PStr ''Validation error'')],
      PDict [(''status'', PStr ''error''), (''code'', PInt (int status))],
      PDict [(''status'', PStr ''error''), (''message'', PStr e)]]"
  by simp

text \<open>
  C5. For a non-empty list of releases that all carry a TMDB id, the result of
  \<^verbatim>\<open>_add_items\<close> is decided by the answer to its POST, which submits the ids of all
  the releases: status 200 gives success = the number of ids and failed = 0; 404,
  422, any other status and any exception give success = 0 and failed = the number
  of ids. The entry under \<^verbatim>\<open>results\<close> is the success entry, the 404 entry, the 422
  entry, or a generic entry (with the status code alone, or with the exception's
  message alone), and these entries differ from one another.
\<close>

theorem add_items_outcome_classes:
  assumes "releases \<noteq> []"
    and "list_all (\<lambda>r. truthy (py_get r ''tmdb_id'')) releases"
    and "ids = map (\<lambda>r. py_str (py_get r ''tmdb_id'')) releases"
    and "res = fst (add_items net hist rq media_type releases)"
  shows
    "(case net (hist_before_add net hist rq media_type ids) (add_request rq media_type ids) of
        Response status body txt \<Rightarrow>
          (if status = 200 then
             res = \<lparr>success = length ids, failed = 0,
                    results = [PDict [(''status'', PStr ''success''),
                                      (''ids'', PList (map PStr ids))]]\<rparr>
           else if status = 404 then
             res = \<lparr>success = 0, failed = length ids,
                    results = [PDict [(''status'', PStr ''error''), (''code'', PInt 404),
                                      (''message'', PStr ''Not found'')]]\<rparr>
           else if status = 422 then
             res = \<lparr>success = 0, failed = length ids,
                    results = [PDict [(''status'', PStr ''error''), (''code'', PInt 422),
                                      (''message'', PStr ''Validation error'')]]\<rparr>
           else
             res = \<lparr>success = 0, failed = length ids,
                    results = [PDict [(''status'', PStr ''error''),
                                      (''code'', PInt (int status))]]\<rparr>)
      | RequestException e \<Rightarrow>
          res = \<lparr>success = 0, failed = length ids,
                 results = [PDict [(''status'', PStr ''error''), (''message'', PStr e)]]\<rparr>
      | OtherException e \<Rightarrow>
          res = \<lparr>success = 0, failed = length ids,
                 results = [PDict [(''status'', PStr ''error''), (''message'', PStr e)]]\<rparr>)
     \<and> length ids = length releases
     \<and> (\<forall>status e. distinct
          [PDict [(''status'', PStr ''success''), (''ids'', PList (map PStr ids))],
           PDict [(''status'', PStr ''error''), (''code'', PInt 404),
                  (''message'', PStr ''Not found'')],
           PDict [(''status'', PStr ''error''), (''code'', PInt 422),
                  (''message'', PStr ''Validation error'')],
           PDict [(''status'', PStr ''error''), (''code'', PInt (int status))],
           PDict [(''status'', PStr ''error''), (''message'', PStr e)]])"
proof -
  have f: "map (\<lambda>r. py_str (py_get r ''tmdb_id''))
             (filter (\<lambda>r. truthy (py_get r ''tmdb_id'')) releases) = ids"
    using assms(2,3) by (simp add: filter_all_truthy)
  have ne: "ids \<noteq> []" using assms(1,3) by simp
  have len: "length ids = length releases" using assms(3) by simp
  note u = add_items_unfold [OF f ne, of net hist rq media_type]
  have first: "(case net (hist_before_add net hist rq media_type ids) (add_request rq media_type ids) of
        Response status body txt \<Rightarrow>
          (if status = 200 then
             res = \<lparr>success = length ids, failed = 0,
                    results = [PDict [(''status'', PStr ''success''),
                                      (''ids'', PList (map PStr ids))]]\<rparr>
           else if status = 404 then
             res = \<lparr>success = 0, failed = length ids,
                    results = [PDict [(''status'', PStr ''error''), (''code'', PInt 404),
                                      (''message'', PStr ''Not found'')]]\<rparr>
           else if status = 422 then
             res = \<lparr>success = 0, failed = length ids,
                    results = [PDict [(''status'', PStr ''error''), (''code'', PInt 422),
                                      (''message'', PStr ''Validation error'')]]\<rparr>
           else
             res = \<lparr>success = 0, failed = length ids,
                    results = [PDict [(''status'', PStr ''error''),
                                      (''code'', PInt (int status))]]\<rparr>)
      | RequestException e \<Rightarrow>
          res = \<lparr>success = 0, failed = length ids,
                 results = [PDict [(''status'', PStr ''error''), (''message'', PStr e)]]\<rparr>
      | OtherException e \<Rightarrow>
          res = \<lparr>success = 0, failed = length ids,
                 results = [PDict [(''status'', PStr ''error''), (''message'', PStr e)]]\<rparr>)"
    unfolding assms(4) u len
    by (cases "net (hist_before_add net hist rq media_type ids) (add_request rq media_type ids)")
       simp_all
  show ?thesis
    using first len detail_entries_distinct by blast
qed


lemma map_filter_mem:
  "map_of m t = Some i \<Longrightarrow> t \<in> set ts \<Longrightarrow> i \<in> set (List.map_filter (map_of m) ts)"
  by (force simp: List.map_filter_def)

text \<open>
  C6. When \<^verbatim>\<open>_add_items\<close> has ids to submit, the calls it makes are, in this order:
  the query for the items in state Unknown of the media type; one bulk removal, if
  and only if some target id is a key of the map built from the query's answer,
  holding the backend-internal id of every target id found in that map; and the
  POST that adds all the target ids. This holds for every network, so whatever the
  query or the removal answers or raises, the add request is made.
\<close>

theorem add_items_reconciles_unknown:
  assumes "tmdb_ids = map (\<lambda>r. py_str (py_get r ''tmdb_id''))
                         (filter (\<lambda>r. truthy (py_get r ''tmdb_id'')) releases)"
    and "tmdb_ids \<noteq> []"
    and "unknown_items = fst (get_unknown_items net hist rq media_type)"
    and "items_to_remove = List.map_filter (map_of unknown_items) tmdb_ids"
  shows
    "snd (add_items net hist rq media_type releases) =
       hist @ [Http (unknown_items_request rq media_type)] @
       (if items_to_remove = [] then [] else [Http (remove_request rq items_to_remove)]) @
       [Http (add_request rq media_type tmdb_ids)]
     \<and> (\<forall>t \<in> set tmdb_ids. \<forall>i. map_of unknown_items t = Some i \<longrightarrow> i \<in> set items_to_remove)
     \<and> (\<exists>url headers params.
           unknown_items_request rq media_type = GET url headers params \<and>
           map_of params ''states'' = Some (PStr ''Unknown'') \<and>
           map_of params ''type'' = Some (PStr media_type))
     \<and> (\<exists>url headers.
           remove_request rq items_to_remove =
             DELETE url headers (PDict [(''ids'', PList (map PStr items_to_remove))]))
     \<and> (\<exists>url headers.
           add_request rq media_type tmdb_ids =
             POST url headers (PDict [(''media_type'', PStr media_type),
                                      (''tmdb_ids'', PList (map PStr tmdb_ids))]))"
proof -
  have "snd (add_items net hist rq media_type releases) =
        hist_before_add net hist rq media_type tmdb_ids @ [Http (add_request rq media_type tmdb_ids)]"
    using add_items_unfold [OF assms(1) [symmetric] assms(2), of net hist rq media_type] by simp
  then have a: "snd (add_items net hist rq media_type releases) =
       hist @ [Http (unknown_items_request rq media_type)] @
       (if items_to_remove = [] then [] else [Http (remove_request rq items_to_remove)]) @
       [Http (add_request rq media_type tmdb_ids)]"
    by (simp add: hist_before_add_def Let_def assms(3,4))
  have b: "\<forall>t \<in> set tmdb_ids. \<forall>i. map_of unknown_items t = Some i \<longrightarrow> i \<in> set items_to_remove"
    unfolding assms(4) by (blast intro: map_filter_mem)
  have c: "\<exists>url headers params.
           unknown_items_request rq media_type = GET url headers params \<and>
           map_of params ''states'' = Some (PStr ''Unknown'') \<and>
           map_of params ''type'' = Some (PStr media_type)"
    by (simp add: unknown_items_request_def)
  have d: "\<exists>url headers.
           remove_request rq items_to_remove =
             DELETE url headers (PDict [(''ids'', PList (map PStr items_to_remove))])"
    by (simp add: remove_request_def)
  have e: "\<exists>url headers.
           add_request rq media_type tmdb_ids =
             POST url headers (PDict [(''media_type'', PStr media_type),
                                      (''tmdb_ids'', PList (map PStr tmdb_ids))])"
    by (simp add: add_request_def)
  from a b c d e show ?thesis by blast
qed

lemma demo_ids:
  "map (\<lambda>r. py_str (py_get r ''tmdb_id'')) demo_releases = [''603'', ''604'']"
  by (simp add: demo_releases_def py_get_def py_str_def str_int_def str_nat.simps)

lemma demo_unknown:
  "fst (get_unknown_items demo_net [] demo_rq ''movie'') = [(''603'', ''a1''), (''11'', ''7'')]"
  by (simp add: get_unknown_items_def demo_net_def unknown_items_request_def py_get_or_def
      py_get_def py_str_def str_int_def str_nat.simps)

theorem add_items_reconciles_unknown_witness:
  "snd (add_items demo_net [] demo_rq ''movie'' demo_releases) =
     [Http (unknown_items_request demo_rq ''movie''),
      Http (remove_request demo_rq [''a1'']),
      Http (add_request demo_rq ''movie'' [''603'', ''604''])]"
proof -
  have t: "filter (\<lambda>r. truthy (py_get r ''tmdb_id'')) demo_releases = demo_releases"
    by (simp add: demo_releases_def py_get_def)
  have h1: "[''603'', ''604''] = map (\<lambda>r. py_str (py_get r ''tmdb_id''))
                         (filter (\<lambda>r. truthy (py_get r ''tmdb_id'')) demo_releases)"
    by (simp only: t demo_ids)
  have h2: "[''603'', ''604''] \<noteq> ([] :: string list)" by simp
  have h4: "[''a1''] = List.map_filter (map_of (fst (get_unknown_items demo_net [] demo_rq ''movie'')))
                          [''603'', ''604'']"
    by (simp add: demo_unknown List.map_filter_def)
  show ?thesis
    using add_items_reconciles_unknown [OF h1 h2 refl h4] by simp
qed

theorem add_items_outcome_classes_witness:
  "fst (add_items demo_net [] demo_rq ''movie'' demo_releases) =
     \<lparr>success = 0, failed = 2,
      results = [PDict [(''status'', PStr ''error''), (''code'', PInt 404),
                        (''message'', PStr ''Not found'')]]\<rparr>"
proof -
  have h1: "demo_releases \<noteq> []" by (simp add: demo_releases_def)
  have h2: "list_all (\<lambda>r. truthy (py_get r ''tmdb_id'')) demo_releases"
    by (simp add: demo_releases_def py_get_def)
  have n: "demo_net (hist_before_add demo_net [] demo_rq ''movie'' [''603'', ''604''])
             (add_request demo_rq ''movie'' [''603'', ''604'']) = Response 404 None []"
    by (simp add: demo_net_def add_request_def)
  show ?thesis
    using add_items_outcome_classes [OF h1 h2 demo_ids [symmetric] refl, of demo_net "[]" demo_rq "''movie''"]
    by (simp add: n)
qed


section \<open>Properties of \<^verbatim>\<open>run_check\<close>\<close>

lemma map_of_ensure_entry:
  "map_of (ensure_entry k t) k' =
     (if k' = k \<and> map_of t k = None then Some \<lparr>overseerr = False, riven = False\<rparr> else map_of t k')"
  by (simp add: ensure_entry_def update_conv')

lemma overseerr_flag_ensure [simp]:
  "overseerr_flag (ensure_entry k t) k' = overseerr_flag t k'"
  by (simp add: overseerr_flag_def map_of_ensure_entry)

lemma riven_flag_ensure [simp]:
  "riven_flag (ensure_entry k t) k' = riven_flag t k'"
  by (simp add: riven_flag_def map_of_ensure_entry)

lemma ensure_entry_nonempty [simp]: "ensure_entry k t \<noteq> []"
  by (cases t) (auto simp: ensure_entry_def)

lemma map_entry_nonempty [simp]: "t \<noteq> [] \<Longrightarrow> AList.map_entry k f t \<noteq> []"
  by (cases t) auto


lemma riven_flag_set_overseerr:
  "riven_flag (AList.map_entry k (\<lambda>f. f\<lparr>overseerr := True\<rparr>) t) k' = riven_flag t k'"
  by (auto simp: riven_flag_def map_of_map_entry split: option.splits)

lemma riven_flag_set_riven:
  "riven_flag (AList.map_entry k (\<lambda>f. f\<lparr>riven := True\<rparr>) (ensure_entry k t)) k' =
     (k' = k \<or> riven_flag t k')"
  by (auto simp: riven_flag_def map_of_map_entry map_of_ensure_entry split: option.splits)


lemma flag_empty: "overseerr_flag [] k = False" "riven_flag [] k = False"
  by (simp_all add: overseerr_flag_def riven_flag_def)

lemma length_attempts [simp]: "length (attempts request hist rs) = length rs"
  by (induction rs arbitrary: hist) auto


lemma overseerr_loop_calls:
  "calls (overseerr_loop request rs s) = calls s @ map RequestMedia rs"
  by (induction rs arbitrary: s) (auto simp: Let_def split: outcome.splits)



lemma overseerr_loop_riven_counts:
  "riven_success_count (overseerr_loop request rs s) = riven_success_count s \<and>
   riven_failed_count (overseerr_loop request rs s) = riven_failed_count s"
  by (induction rs arbitrary: s) (auto simp: Let_def split: outcome.splits)


lemma overseerr_loop_riven_flag:
  "riven_flag (release_results (overseerr_loop request rs s)) k = riven_flag (release_results s) k"
  by (induction rs arbitrary: s)
     (auto simp: Let_def riven_flag_set_overseerr split: outcome.splits)


lemma mark_riven_riven_flag:
  "riven_flag (mark_riven rs t) k = (riven_flag t k \<or> k \<in> release_key ` set rs)"
  by (induction rs arbitrary: t) (auto simp: Let_def riven_flag_set_riven)







lemma riven_step_calls:
  "rs \<noteq> [] \<Longrightarrow>
   calls (riven_step net (Some rq) rs s) = snd (add_media net (calls s) rq rs) \<and>
   riven_success_count (riven_step net (Some rq) rs s) = success (fst (add_media net (calls s) rq rs)) \<and>
   riven_failed_count (riven_step net (Some rq) rs s) = failed (fst (add_media net (calls s) rq rs))"
  by (auto simp: riven_step_def Let_def split: prod.splits)



lemma riven_step_riven_flag:
  "rs \<noteq> [] \<Longrightarrow>
   riven_flag (release_results (riven_step net (Some rq) rs s)) k =
     (riven_flag (release_results s) k \<or>
      (0 < riven_success_count (riven_step net (Some rq) rs s) \<and> k \<in> release_key ` set rs))"
  by (auto simp: riven_step_def Let_def mark_riven_riven_flag split: prod.splits)

lemma notify_step_fields:
  "release_results (final_state (notify_step dn rs s)) = release_results s \<and>
   overseerr_successful (final_state (notify_step dn rs s)) = overseerr_successful s \<and>
   overseerr_failed (final_state (notify_step dn rs s)) = overseerr_failed s \<and>
   riven_success_count (final_state (notify_step dn rs s)) = riven_success_count s \<and>
   riven_failed_count (final_state (notify_step dn rs s)) = riven_failed_count s \<and>
   prefix (calls s) (calls (final_state (notify_step dn rs s)))"
  by (auto simp: notify_step_def Let_def split: outcome.splits)


lemma run_check_unfold:
  "run_check net (Returns releases) ov rv fe dn =
     (case fe releases of
        Raises e \<Rightarrow>
          Propagated e \<lparr>calls = [], release_results = [], overseerr_successful = 0,
                        overseerr_failed = 0, riven_success_count = 0, riven_failed_count = 0\<rparr>
      | Returns filtered \<Rightarrow>
          notify_step dn filtered
            (riven_step net rv filtered
               (overseerr_step ov filtered
                  \<lparr>calls = [], release_results = [], overseerr_successful = 0,
                   overseerr_failed = 0, riven_success_count = 0, riven_failed_count = 0\<rparr>)))"
  by (simp add: run_check_def Let_def)


text \<open>
  C2. In a run with the Riven requester configured and a non-empty filtered set,
  the success count recorded is the one \<^verbatim>\<open>add_media\<close> returned for the whole
  filtered set. If it is above zero, the \<^verbatim>\<open>riven\<close> flag is set in the outcome table
  under the key \<^verbatim>\<open>str(release.get("tmdb_id", ""))\<close> of every filtered release,
  however many items the backend accepted; if it is zero, no key has its
  \<^verbatim>\<open>riven\<close> flag set.
\<close>

theorem run_check_riven_marks_all:
  assumes "release_checker = Returns releases"
    and "filter_engine releases = Returns filtered"
    and "filtered \<noteq> []"
    and "riven_requester = Some rq"
    and "s = final_state (run_check net release_checker overseerr_requester riven_requester
                            filter_engine discord_notifier)"
    and "hist = (case overseerr_requester of
                   Some request \<Rightarrow> map RequestMedia filtered | None \<Rightarrow> [])"
  shows
    "riven_success_count s = success (fst (add_media net hist rq filtered))
     \<and> (0 < riven_success_count s \<longrightarrow>
          (\<forall>r \<in> set filtered. riven_flag (release_results s) (release_key r)))
     \<and> (riven_success_count s = 0 \<longrightarrow> (\<forall>k. \<not> riven_flag (release_results s) k))"
proof -
  define s0 where "s0 = \<lparr>calls = [], release_results = [], overseerr_successful = 0,
                   overseerr_failed = 0, riven_success_count = 0, riven_failed_count = (0::nat)\<rparr>"
  define s1 where "s1 = overseerr_step overseerr_requester filtered s0"
  define s2 where "s2 = riven_step net (Some rq) filtered s1"
  have s: "s = final_state (notify_step discord_notifier filtered s2)"
    unfolding assms(5) assms(1) run_check_unfold assms(2) assms(4) s2_def s1_def s0_def
    by simp
  have c1: "calls s1 = hist"
    using assms(3)
    by (simp add: s1_def overseerr_step_def overseerr_loop_calls s0_def assms(6) split: option.splits)
  have r1: "\<forall>k. \<not> riven_flag (release_results s1) k"
    by (simp add: s1_def overseerr_step_def overseerr_loop_riven_flag s0_def flag_empty
        split: option.splits)
  have cnt: "riven_success_count s = riven_success_count s2"
    and rr: "release_results s = release_results s2"
    unfolding s using notify_step_fields [of discord_notifier filtered s2] by simp_all
  have g1: "riven_success_count s = success (fst (add_media net hist rq filtered))"
    unfolding cnt s2_def using riven_step_calls [OF assms(3), of net rq s1] by (simp add: c1)
  have fl: "\<forall>k. riven_flag (release_results s) k =
              (0 < riven_success_count s \<and> k \<in> release_key ` set filtered)"
    unfolding rr cnt s2_def using riven_step_riven_flag [OF assms(3), of net rq s1] r1 by simp
  from g1 fl show ?thesis by simp
qed

lemma demo_releases_movies:
  "filter (\<lambda>r. py_get r ''type'' = PStr ''movie'') demo_releases = demo_releases"
  by (simp add: demo_releases_def py_get_def)

lemma demo_releases_truthy:
  "filter (\<lambda>r. truthy (py_get r ''tmdb_id'')) demo_releases = demo_releases"
  by (simp add: demo_releases_def py_get_def)

lemma demo_add_media_ok:
  "success (fst (add_media demo_net_ok [] demo_rq demo_releases)) = 2"
proof -
  have e: "is_enabled demo_rq" by (simp add: is_enabled_def demo_rq_def)
  have ne: "demo_releases \<noteq> []" by (simp add: demo_releases_def)
  have a: "add_media demo_net_ok [] demo_rq demo_releases =
           add_items demo_net_ok [] demo_rq ''movie'' demo_releases"
    using e ne by (simp add: add_media_def demo_releases_movies)
  have i: "map (\<lambda>r. py_str (py_get r ''tmdb_id''))
             (filter (\<lambda>r. truthy (py_get r ''tmdb_id'')) demo_releases) = [''603'', ''604'']"
    by (simp only: demo_releases_truthy demo_ids)
  have n: "[''603'', ''604''] \<noteq> ([] :: string list)" by simp
  show ?thesis
    unfolding a add_items_unfold [OF i n] by (simp add: demo_net_ok_def)
qed

lemma demo_release_keys: "map release_key demo_releases = [''603'', ''604'']"
  by (simp add: demo_releases_def release_key_def py_get_or_def py_str_def str_int_def str_nat.simps)

theorem run_check_riven_marks_all_witness:
  "riven_flag (release_results (final_state
      (run_check demo_net_ok (Returns demo_releases) None (Some demo_rq) Returns demo_notifier)))
      ''603''
   \<and> riven_flag (release_results (final_state
      (run_check demo_net_ok (Returns demo_releases) None (Some demo_rq) Returns demo_notifier)))
      ''604''"
proof -
  have ne: "demo_releases \<noteq> []" by (simp add: demo_releases_def)
  have h: "[] = (case (None :: request_media option) of
                   Some request \<Rightarrow> map RequestMedia demo_releases | None \<Rightarrow> [])"
    by simp
  have k: "set demo_releases = {demo_releases ! 0, demo_releases ! 1}"
    by (simp add: demo_releases_def)
  have k0: "release_key (demo_releases ! 0) = ''603''" "release_key (demo_releases ! 1) = ''604''"
    using demo_release_keys by (simp_all add: demo_releases_def)
  show ?thesis
    using run_check_riven_marks_all
      [where release_checker = "Returns demo_releases" and releases = demo_releases
         and filter_engine = Returns and filtered = demo_releases
         and riven_requester = "Some demo_rq" and rq = demo_rq
         and overseerr_requester = None and net = demo_net_ok
         and discord_notifier = demo_notifier and hist = "[]"
         and s = "final_state (run_check demo_net_ok (Returns demo_releases) None
                    (Some demo_rq) Returns demo_notifier)"]
      ne demo_add_media_ok k k0
    by simp
qed




lemma add_media_without_type:
  "\<forall>r \<in> set releases. map_of r ''type'' = None \<Longrightarrow>
   add_media net hist rq releases = (\<lparr>success = 0, failed = 0, results = []\<rparr>, hist)"
proof -
  assume a: "\<forall>r \<in> set releases. map_of r ''type'' = None"
  have "filter (\<lambda>r. py_get r ''type'' = PStr ''movie'') releases = []"
    using a by (induction releases) (auto simp: py_get_def)
  then show ?thesis by (simp add: add_media_def)
qed

lemma lookup_record_has_no_type:
  "lookup_on_tmdb_record title movie genre_names certification = Some release \<Longrightarrow>
   map_of release ''type'' = None \<and> map_of release ''tmdb_id'' = None
   \<and> map_of release ''media_type'' = Some (PStr ''movie'')
   \<and> map_of release ''id'' = map_of movie ''id''"
  by (auto simp: lookup_on_tmdb_record_def split: option.splits)

text \<open>
  C1. \<^verbatim>\<open>run_check\<close> hands the whole filtered set to \<^verbatim>\<open>add_media\<close> once (that is
  \<open>riven_step\<close>). But \<^verbatim>\<open>add_media\<close> keeps the releases whose \<^verbatim>\<open>"type"\<close> is
  \<^verbatim>\<open>"movie"\<close> and \<^verbatim>\<open>_add_items\<close> reads their \<^verbatim>\<open>"tmdb_id"\<close>, while the record the
  scraper's TMDB lookup builds has the keys \<^verbatim>\<open>"media_type"\<close> and \<^verbatim>\<open>"id"\<close>. For
  such a record, with Riven configured and a backend that would accept everything,
  no request is made at all and nothing is added.
\<close>

theorem run_check_dvd_release_not_added:
  "lookup_on_tmdb_record ''The Matrix'' demo_movie [PStr ''Action''] (PStr ''R'')
     = Some demo_dvd_release
   \<and> add_media demo_net_ok [] demo_rq [demo_dvd_release]
     = (\<lparr>success = 0, failed = 0, results = []\<rparr>, [])
   \<and> run_check demo_net_ok (Returns [demo_dvd_release]) None (Some demo_rq) Returns demo_notifier
     = Completed \<lparr>calls = [], release_results = [], overseerr_successful = 0,
                  overseerr_failed = 0, riven_success_count = 0, riven_failed_count = 0\<rparr>"
proof -
  have a: "lookup_on_tmdb_record ''The Matrix'' demo_movie [PStr ''Action''] (PStr ''R'')
     = Some demo_dvd_release"
    by (simp add: lookup_on_tmdb_record_def demo_movie_def demo_dvd_release_def py_get_or_def
        py_get_def)
  have b: "add_media demo_net_ok [] demo_rq [demo_dvd_release]
     = (\<lparr>success = 0, failed = 0, results = []\<rparr>, [])"
    using lookup_record_has_no_type [OF a] by (simp add: add_media_without_type)
  have c: "run_check demo_net_ok (Returns [demo_dvd_release]) None (Some demo_rq) Returns demo_notifier
     = Completed \<lparr>calls = [], release_results = [], overseerr_successful = 0,
                  overseerr_failed = 0, riven_success_count = 0, riven_failed_count = 0\<rparr>"
    by (simp add: run_check_unfold overseerr_step_def riven_step_def b notify_step_def)
  from a b c show ?thesis by blast
qed

section \<open>Properties of \<^verbatim>\<open>main\<close>\<close>

lemma parse_run_time_example: "parse_run_time ''19:00'' = Inr (19, 0)"
  by (simp add: parse_run_time_def py_int_def strip_def is_space_def digits_val_def is_digit_def
      digit_val_def)

lemma next_run_30: "\<exists>t. next_run_time (PStr ''19:00'') demo_start = Inr t"
  by (simp add: next_run_time_def parse_run_time_example replace_time_def datetime_le_def
      datetime_key_def replace_day_def days_in_month_def demo_start_def)

lemma next_run_31: "next_run_time (PStr ''19:00'') demo_back = Inl ValueError"
  by (simp add: next_run_time_def parse_run_time_example replace_time_def datetime_le_def
      datetime_key_def replace_day_def days_in_month_def demo_back_def)

lemma demo_startup: "startup_checks demo_config = Inr (False, True)"
  by (simp add: startup_checks_def demo_config_def section_get_def py_get_or_def py_get_def)

text \<open>
  C4. In scheduled mode the handler inside the loop covers the delay and
  \<^verbatim>\<open>run_check\<close> only; the next run time is computed outside it. "Tomorrow" is
  \<^verbatim>\<open>next_run.replace(day=now.day + 1)\<close>, which raises \<^verbatim>\<open>ValueError\<close> on the last day
  of a month. A process that is scheduled for 19:00, starts on 30 January at 20:00
  and runs its check on 31 January comes back to the head of the loop after
  19:00 of the 31st: the exception reaches the outer handler and \<^verbatim>\<open>main\<close> returns 1,
  although the configuration is valid and the check completed.
\<close>

theorem main_exits_at_month_end:
  "main (Inr demo_config) (Returns ()) (Returns ()) demo_cycles = (Some 1, [CheckCompleted])"
proof -
  have rt: "py_get_or demo_config ''run_time'' (PStr []) = PStr ''19:00''"
    by (simp add: demo_config_def py_get_or_def)
  have rd: "py_get_or demo_config ''request_delay_minutes'' (PInt 0) = PInt 0"
    by (simp add: demo_config_def py_get_or_def)
  have g: "guarded_check (PInt 0) demo_done = CheckCompleted"
    by (simp add: guarded_check_def request_delay_def py_gt_int_def demo_done_def)
  have l: "scheduled_loop (PStr ''19:00'') (PInt 0) demo_cycles = (Some 1, [CheckCompleted])"
    using next_run_30 by (auto simp: demo_cycles_def next_run_31 g)
  show ?thesis
    by (simp add: main_def demo_startup rt rd l)
qed

text \<open>
  What the loop does guarantee: as long as the next run time can be computed, it
  never leaves, and an exception of the delay or of \<^verbatim>\<open>run_check\<close> is reported and
  the next turn follows.
\<close>

lemma scheduled_loop_continues:
  "list_all (\<lambda>c. \<exists>t. next_run_time run_time (cycle_now c) = Inr t) cycles \<Longrightarrow>
   scheduled_loop run_time request_delay_minutes cycles =
     (None, map (\<lambda>c. guarded_check request_delay_minutes (cycle_check c)) cycles)"
  by (induction cycles) auto

lemma guarded_check_catches:
  "guarded_check request_delay_minutes (Propagated e s) = ErrorDuringCheck"
  by (simp add: guarded_check_def split: sum.splits)

section \<open>Properties of the configuration manager\<close>

lemma for_each_append:
  "for_each body (ys @ zs) c =
     (case for_each body ys c of Inl e \<Rightarrow> Inl e | Inr c1 \<Rightarrow> for_each body zs c1)"
  by (induction ys arbitrary: c) (auto split: sum.splits)

lemma for_each_frame:
  assumes "for_each body xs c = Inr c'"
    and "\<And>x a b. x \<in> set xs \<Longrightarrow> body x a = Inr b \<Longrightarrow> f b = f a"
  shows "f c' = f c"
  using assms
proof (induction xs arbitrary: c)
  case Nil
  then show ?case by simp
next
  case (Cons x xs)
  from Cons.prems(1) obtain c1 where b: "body x c = Inr c1" and r: "for_each body xs c1 = Inr c'"
    by (auto split: sum.splits)
  have "f c' = f c1"
  proof (rule Cons.IH [OF r])
    fix y a b assume "y \<in> set xs" "body y a = Inr b"
    then show "f b = f a" using Cons.prems(2) [of y a b] by simp
  qed
  moreover have "f c1 = f c" using Cons.prems(2) [of x c c1] b by simp
  ultimately show ?case by simp
qed

lemma for_each_established:
  assumes "for_each body (ys @ x # zs) c = Inr c'"
    and "\<And>a b. body x a = Inr b \<Longrightarrow> f b = w"
    and "\<And>z a b. z \<in> set zs \<Longrightarrow> body z a = Inr b \<Longrightarrow> f b = f a"
  shows "f c' = w"
proof -
  from assms(1) obtain c1 where "for_each body (x # zs) c1 = Inr c'"
    by (auto simp: for_each_append split: sum.splits)
  then obtain c2 where b: "body x c1 = Inr c2" and r: "for_each body zs c2 = Inr c'"
    by (auto split: sum.splits)
  have "f c' = f c2" using for_each_frame [OF r, of f] assms(3) by blast
  with assms(2) [OF b] show ?thesis by simp
qed
























lemma strip_nan: "strip ''nan'' = ''nan''"
  by (simp add: strip_def is_space_def)

lemma py_float_nan: "py_float ''nan'' = Some NaN"
  by (simp add: py_float_def strip_nan lower_def lower_char_def)

lemma nan_nested:
  "for_each (apply_nested nan_getenv) env_map DEFAULT_SETTINGS = Inr nan_config"
  by (simp add: env_map_def apply_nested_def nan_getenv_def strip_nan convert_def py_float_nan
      DEFAULT_SETTINGS_def nan_config_def)

lemma nan_top:
  "for_each (apply_top nan_getenv) top_level_map nan_config = Inr nan_config"
  by (simp add: top_level_map_def apply_top_def nan_getenv_def)

lemma nan_valid: "validate_config nan_config = Inr ()"
  by (simp add: validate_config_def nan_config_def section_get_def py_get_or_def py_get_def
      validate_service_def py_lt_int_def py_gt_int_def)

text \<open>
  C7. \<^verbatim>\<open>_validate_config\<close> rejects the rating with
  \<^verbatim>\<open>rating < 0 or rating > 10\<close>. Both comparisons are false for NaN, which
  \<^verbatim>\<open>float()\<close> yields for the text \<^verbatim>\<open>nan\<close>. Without a settings file and with
  \<^verbatim>\<open>FILTERS_MIN_TMDB_RATING=nan\<close> in the environment, \<^verbatim>\<open>load_config\<close> raises nothing
  and returns a configuration whose \<^verbatim>\<open>min_tmdb_rating\<close> is NaN, for which
  \<^verbatim>\<open>0 <= rating <= 10\<close> is false.
\<close>

theorem load_config_accepts_nan:
  "load_config Missing nan_getenv = Inr nan_config
   \<and> nested_value nan_config ''filters'' ''min_tmdb_rating'' = Some (PFloat NaN)
   \<and> \<not> float_le (Finite 0) NaN \<and> \<not> float_le NaN (Finite 10)"
proof -
  have l: "load_config Missing nan_getenv = Inr nan_config"
    by (simp add: load_config_def apply_env_overrides_def nan_nested nan_top nan_valid)
  have n: "nested_value nan_config ''filters'' ''min_tmdb_rating'' = Some (PFloat NaN)"
    by (simp add: nested_value_def nan_config_def)
  show ?thesis using l n by (simp add: float_le_def)
qed

text \<open>
  What the validation does guarantee: an accepted rating is a number that is NaN
  or lies between 0 and 10.
\<close>

lemma validate_config_range:
  assumes "validate_config config = Inr ()"
  shows "\<exists>filters f. py_get_or config ''filters'' (PDict []) = PDict filters \<and>
           number (py_get_or filters ''min_tmdb_rating'' (PInt 0)) = Some f \<and>
           (f = NaN \<or> (float_le (Finite 0) f \<and> float_le f (Finite 10)))"
proof -
  from assms obtain filters where
    fl: "py_get_or config ''filters'' (PDict []) = PDict filters"
    and lo: "py_lt_int (py_get_or filters ''min_tmdb_rating'' (PInt 0)) 0 = Inr False"
    and hi: "py_gt_int (py_get_or filters ''min_tmdb_rating'' (PInt 0)) 10 = Inr False"
    by (auto simp: validate_config_def split: sum.splits pyval.splits if_splits)
  from lo obtain f where
    f: "number (py_get_or filters ''min_tmdb_rating'' (PInt 0)) = Some f"
    and "\<not> float_less f (Finite 0)"
    by (auto simp: py_lt_int_def split: option.splits)
  moreover from hi f have "\<not> float_less (Finite 10) f"
    by (auto simp: py_gt_int_def split: option.splits)
  ultimately have "f = NaN \<or> (float_le (Finite 0) f \<and> float_le f (Finite 10))"
    by (cases f) (auto simp: float_le_def)
  with fl f show ?thesis by blast
qed







section \<open>Properties of the filter engine\<close>

text \<open>
  C8. For every filter configuration and every list of releases, the result of
  \<^verbatim>\<open>apply_filters\<close> is a subsequence of its input: it is obtained from the input by
  dropping elements, so the retained releases keep their relative order, and
  every release of the result is a release of the input.
\<close>

theorem apply_filters_subsequence:
  "subseq (apply_filters cfg releases) releases
   \<and> set (apply_filters cfg releases) \<subseteq> set releases"
  by (simp add: apply_filters_def)

lemma demo_rated_filtered:
  "apply_filters demo_filter_config demo_rated = [demo_rated ! 1, demo_rated ! 2]"
  by (simp add: apply_filters_def admits_def demo_filter_config_def demo_rated_def
      release_rating_def release_adult_def release_string_def release_genres_def
      py_get_or_def py_get_def float_le_def List.map_filter_def lower_def lower_char_def)

theorem apply_filters_subsequence_witness:
  "subseq [demo_rated ! 1, demo_rated ! 2] demo_rated
   \<and> set [demo_rated ! 1, demo_rated ! 2] \<subseteq> set demo_rated"
  using apply_filters_subsequence [of demo_filter_config demo_rated]
  by (simp only: demo_rated_filtered)


end
